theory Spec2Isabelle
  imports Complex_Main "HOL-Library.Sublist"
begin

section \<open>Python values, exceptions and strings\<close>

text \<open>
  The exception classes the collector distinguishes or can meet. \<open>FileNotFoundError\<close>,
  \<open>PermissionError\<close> and \<open>SameFileError\<close> are subclasses of \<open>OSError\<close>; \<open>OSError\<close> here
  stands for every other \<open>OSError\<close>, \<open>OtherException\<close> for every other subclass of
  \<open>Exception\<close> (\<open>MemoryError\<close>, \<open>ValueError\<close>, \<open>UnicodeDecodeError\<close>, ...), and
  \<open>KeyboardInterrupt\<close> for the classes that derive from \<open>BaseException\<close> only, which
  \<^verbatim>\<open>except Exception\<close> does not catch. An exception value carries its class and the
  text \<^verbatim>\<open>str(e)\<close>.
\<close>

datatype exc_class =
  FileNotFoundError | PermissionError | TimeoutExpired | KeyError | SameFileError
  | OSError | OtherException | KeyboardInterrupt

datatype py_exception = PyExc (exc_cls: exc_class) (exc_str: string)

definition is_Exception :: "exc_class \<Rightarrow> bool" where
  "is_Exception c = (c \<noteq> KeyboardInterrupt)"

datatype pyval = PStr string | PInt int | PFloat real

type_synonym pydict = "(string \<times> pyval) list"

text \<open>\<^verbatim>\<open>sub in s\<close> on strings.\<close>

fun str_in :: "string \<Rightarrow> string \<Rightarrow> bool" where
  "str_in sub [] = (sub = [])"
| "str_in sub (c # cs) = (prefix sub (c # cs) \<or> str_in sub cs)"

text \<open>
  White space and line boundaries of \<^verbatim>\<open>str.strip\<close>, \<^verbatim>\<open>str.split\<close> and
  \<^verbatim>\<open>str.splitlines\<close>, for the ASCII range (a \<open>string\<close> is a list of 8-bit characters).
\<close>

definition is_space :: "char \<Rightarrow> bool" where
  "is_space c = (c = CHR '' '' \<or> c = CHR 0x09 \<or> c = CHR 0x0A \<or> c = CHR 0x0B \<or> c = CHR 0x0C
     \<or> c = CHR 0x0D \<or> c = CHR 0x1C \<or> c = CHR 0x1D \<or> c = CHR 0x1E \<or> c = CHR 0x1F)"

definition is_linebreak :: "char \<Rightarrow> bool" where
  "is_linebreak c = (c = CHR 0x0A \<or> c = CHR 0x0B \<or> c = CHR 0x0C \<or> c = CHR 0x0D
     \<or> c = CHR 0x1C \<or> c = CHR 0x1D \<or> c = CHR 0x1E)"

definition strip :: "string \<Rightarrow> string" where
  "strip s = rev (dropWhile is_space (rev (dropWhile is_space s)))"

fun split_aux :: "string \<Rightarrow> string \<Rightarrow> string list" where
  "split_aux cur [] = (if cur = [] then [] else [rev cur])"
| "split_aux cur (c # cs) =
     (if is_space c then (if cur = [] then split_aux [] cs else rev cur # split_aux [] cs)
      else split_aux (c # cur) cs)"

definition split_ws :: "string \<Rightarrow> string list" where
  "split_ws s = split_aux [] s"

text \<open>\<open>after_cr\<close> is set right after a carriage return, so that CR LF ends one line only.\<close>

fun splitlines_aux :: "bool \<Rightarrow> string \<Rightarrow> string \<Rightarrow> string list" where
  "splitlines_aux after_cr cur [] = (if cur = [] then [] else [rev cur])"
| "splitlines_aux after_cr cur (c # cs) =
     (if after_cr \<and> c = CHR 0x0A then splitlines_aux False cur cs
      else if is_linebreak c then rev cur # splitlines_aux (c = CHR 0x0D) [] cs
      else splitlines_aux False (c # cur) cs)"

definition splitlines :: "string \<Rightarrow> string list" where
  "splitlines s = splitlines_aux False [] s"

text \<open>\<^verbatim>\<open>s.rstrip('/')\<close> and \<^verbatim>\<open>s.replace(':', '-')\<close>.\<close>

definition rstrip_slash :: "string \<Rightarrow> string" where
  "rstrip_slash s = rev (dropWhile (\<lambda>c. c = CHR ''/'') (rev s))"

definition replace_colons :: "string \<Rightarrow> string" where
  "replace_colons s = map (\<lambda>c. if c = CHR '':'' then CHR ''-'' else c) s"

text \<open>\<^verbatim>\<open>str(n)\<close> for an integer.\<close>

fun str_nat :: "nat \<Rightarrow> string" where
  "str_nat n =
     (if n < 10 then [''0123456789'' ! n] else str_nat (n div 10) @ [''0123456789'' ! (n mod 10)])"

declare str_nat.simps [simp del]

definition str_int :: "int \<Rightarrow> string" where
  "str_int i = (if i < 0 then CHR ''-'' # str_nat (nat (- i)) else str_nat (nat i))"

text \<open>\<^verbatim>\<open>os.path.join(a, b)\<close>, \<^verbatim>\<open>os.path.basename\<close> and \<^verbatim>\<open>os.path.dirname\<close> of posixpath.\<close>

definition path_join :: "string \<Rightarrow> string \<Rightarrow> string" where
  "path_join a b =
     (if prefix ''/'' b then b
      else if a = [] \<or> suffix ''/'' a then a @ b
      else a @ ''/'' @ b)"

definition basename :: "string \<Rightarrow> string" where
  "basename p = rev (takeWhile (\<lambda>c. c \<noteq> CHR ''/'') (rev p))"

text \<open>The head of \<^verbatim>\<open>posixpath.split\<close>: everything up to and including the last slash.
  (\<^verbatim>\<open>dirname\<close> then drops the trailing slashes of a head that is not all slashes.)\<close>

definition path_head :: "string \<Rightarrow> string" where
  "path_head p = rev (dropWhile (\<lambda>c. c \<noteq> CHR ''/'') (rev p))"

definition dirname :: "string \<Rightarrow> string" where
  "dirname p = (let h = path_head p in if rstrip_slash h = [] then h else rstrip_slash h)"

section \<open>The host: what the collector reads and what it changes\<close>

record sdiskpart =
  device :: string
  mountpoint :: string
  fstype :: string
  opts :: string

record sdiskusage =
  u_total :: int
  u_used :: int
  u_free :: int
  u_percent :: real

record completed_process =
  returncode :: int
  stdout :: string
  stderr :: string

text \<open>The report dictionary; \<open>p_notes\<close> is its \<^verbatim>\<open>notes\<close> entry.\<close>

record payload =
  collected_at :: string
  host :: string
  disk_partitions :: "pydict list"
  smart :: "pydict list"
  p_notes :: "string list"

text \<open>Every call that leaves the process is recorded, when it is made, in the trace.\<close>

datatype syscall =
  Spawn "string list"
  | Mkdtemp string
  | OpenWrite string
  | WriteData string
  | Replace string string
  | Makedirs string
  | Copy string string
  | Remove string
  | Rmtree string

datatype level = Info | Warning | Error

record state =
  files :: "string \<rightharpoonup> string"
  dirs :: "string set"
  logged :: "(level \<times> string \<times> pyval list) list"
  trace :: "syscall list"

text \<open>
  The environment fixes the outcome of every external call: the host name and clock, what
  psutil reports, what each spawned command does (\<open>Inl\<close>: \<^verbatim>\<open>subprocess.run\<close> raises, for
  instance \<open>FileNotFoundError\<close> for a missing executable or \<open>TimeoutExpired\<close> when the
  \<^verbatim>\<open>timeout=20\<close> of the SMART probe elapses), which file-system calls fail, the name
  \<^verbatim>\<open>tempfile.mkdtemp\<close> picks, and the library functions \<^verbatim>\<open>json.dump\<close> (as the text it
  writes) and \<^verbatim>\<open>os.path.expanduser\<close>.
\<close>

record env =
  gethostname :: string
  utcnow_isoformat :: string
  psutil_disk_partitions :: "sdiskpart list"
  psutil_disk_usage :: "string \<Rightarrow> py_exception + sdiskusage"
  proc :: "string list \<Rightarrow> py_exception + completed_process"
  os_error :: "syscall \<Rightarrow> py_exception option"
  mkdtemp_name :: "string \<Rightarrow> string"
  written_before_failure :: nat
  json_dumps :: "payload \<Rightarrow> string"
  expanduser :: "string \<Rightarrow> string"

definition subprocess_run ::
  "env \<Rightarrow> string list \<Rightarrow> state \<Rightarrow> (py_exception + completed_process) \<times> state" where
  "subprocess_run e argv s = (proc e argv, s\<lparr>trace := trace s @ [Spawn argv]\<rparr>)"

definition logger_log :: "level \<Rightarrow> string \<Rightarrow> pyval list \<Rightarrow> state \<Rightarrow> state" where
  "logger_log lvl fmt args s = s\<lparr>logged := logged s @ [(lvl, fmt, args)]\<rparr>"

section \<open>The SMART probe (disk\_monitor.py, \<open>smart_check\<close>)\<close>

definition passed_marker :: "string \<Rightarrow> bool" where
  "passed_marker out =
     (str_in ''PASSED'' out
      \<or> str_in ''SMART overall-health self-assessment test result: PASSED'' out)"

definition smart_check :: "env \<Rightarrow> string \<Rightarrow> state \<Rightarrow> (py_exception + pydict) \<times> state" where
  "smart_check e dev s =
     (case subprocess_run e [''smartctl'', ''-H'', dev] s of
        (Inr res, s') \<Rightarrow>
          (let status =
                 (if returncode res = 0
                  then (if passed_marker (stdout res) then ''OK'' else ''UNKNOWN'')
                  else ''ERROR'')
           in (Inr [(''device'', PStr dev), (''returncode'', PInt (returncode res)),
                    (''stdout'', PStr (stdout res)), (''stderr'', PStr (stderr res)),
                    (''status'', PStr status)], s'))
      | (Inl ex, s') \<Rightarrow>
          (if exc_cls ex = FileNotFoundError
           then (Inr [(''device'', PStr dev), (''error'', PStr ''smartctl-not-installed'')], s')
           else if is_Exception (exc_cls ex)
           then (Inr [(''device'', PStr dev), (''error'', PStr (exc_str ex))], s')
           else (Inl ex, s')))"

text \<open>
  The specification's view of a probe result. Its HealthResult has a status among OK,
  UNKNOWN, ERROR and UNAVAILABLE; the dictionary \<open>smart_check\<close> returns has a
  \<^verbatim>\<open>status\<close> entry for the first three, and for the last one an \<^verbatim>\<open>error\<close> entry and
  no \<^verbatim>\<open>status\<close> entry. \<open>spec_status\<close> reads the specification's status off the
  dictionary; \<open>spec_well_formed\<close> is the specification's "exactly one of textual output
  and error description is populated, depending on the status".
\<close>

datatype health_status = OK | UNKNOWN | ERROR | UNAVAILABLE

definition spec_status :: "pydict \<Rightarrow> health_status option" where
  "spec_status d =
     (case map_of d ''status'' of
        Some v \<Rightarrow>
          (if v = PStr ''OK'' then Some OK
           else if v = PStr ''UNKNOWN'' then Some UNKNOWN
           else if v = PStr ''ERROR'' then Some ERROR
           else None)
      | None \<Rightarrow> (case map_of d ''error'' of Some v \<Rightarrow> Some UNAVAILABLE | None \<Rightarrow> None))"

definition error_description :: "pydict \<Rightarrow> pyval option" where
  "error_description d = map_of d ''error''"

definition raw_output :: "pydict \<Rightarrow> pyval option" where
  "raw_output d = map_of d ''stdout''"

definition spec_well_formed :: "string \<Rightarrow> pydict \<Rightarrow> bool" where
  "spec_well_formed dev d =
     (map_of d ''device'' = Some (PStr dev) \<and>
      (case spec_status d of
         None \<Rightarrow> False
       | Some UNAVAILABLE \<Rightarrow> error_description d \<noteq> None \<and> raw_output d = None
       | Some st \<Rightarrow> raw_output d \<noteq> None \<and> error_description d = None))"

section \<open>Collection (disk\_monitor.py, \<open>collect_disk_usage\<close> and \<open>list_block_disks\<close>)\<close>

definition partition_entry :: "sdiskpart \<Rightarrow> sdiskusage \<Rightarrow> pydict" where
  "partition_entry p usage =
     [(''device'', PStr (device p)), (''mountpoint'', PStr (mountpoint p)),
      (''fstype'', PStr (fstype p)), (''opts'', PStr (opts p)),
      (''total'', PInt (u_total usage)), (''used'', PInt (u_used usage)),
      (''free'', PInt (u_free usage)), (''percent'', PFloat (u_percent usage))]"

text \<open>The loop of \<open>collect_disk_usage\<close>: \<^verbatim>\<open>except PermissionError: continue\<close>; any other
  exception of \<^verbatim>\<open>psutil.disk_usage\<close> leaves the function.\<close>

fun collect_loop :: "env \<Rightarrow> sdiskpart list \<Rightarrow> pydict list \<Rightarrow> py_exception + pydict list" where
  "collect_loop e [] partitions = Inr partitions"
| "collect_loop e (p # ps) partitions =
     (case psutil_disk_usage e (mountpoint p) of
        Inl ex \<Rightarrow>
          (if exc_cls ex = PermissionError then collect_loop e ps partitions else Inl ex)
      | Inr usage \<Rightarrow> collect_loop e ps (partitions @ [partition_entry p usage]))"

definition collect_disk_usage :: "env \<Rightarrow> py_exception + pydict list" where
  "collect_disk_usage e = collect_loop e (psutil_disk_partitions e) []"

fun disks_loop :: "string list \<Rightarrow> string list \<Rightarrow> string list" where
  "disks_loop [] disks = disks"
| "disks_loop (line # ls) disks =
     (let parts = split_ws (strip line)
      in if length parts = 2 \<and> parts ! 1 = ''disk''
         then disks_loop ls (disks @ [''/dev/'' @ parts ! 0])
         else disks_loop ls disks)"

text \<open>\<^verbatim>\<open>subprocess.run\<close> is called outside any \<^verbatim>\<open>try\<close>: what it raises leaves the function.\<close>

definition list_block_disks :: "env \<Rightarrow> state \<Rightarrow> (py_exception + string list) \<times> state" where
  "list_block_disks e s =
     (case subprocess_run e [''lsblk'', ''-ndo'', ''NAME,TYPE''] s of
        (Inl ex, s') \<Rightarrow> (Inl ex, s')
      | (Inr out, s') \<Rightarrow>
          (Inr (if returncode out = 0 then disks_loop (splitlines (stdout out)) [] else []), s'))"

section \<open>File-system calls\<close>

definition called :: "syscall \<Rightarrow> state \<Rightarrow> state" where
  "called c s = s\<lparr>trace := trace s @ [c]\<rparr>"

text \<open>\<^verbatim>\<open>os.replace(src, dst)\<close>: an atomic rename onto \<open>dst\<close>.\<close>

definition os_replace :: "env \<Rightarrow> string \<Rightarrow> string \<Rightarrow> state \<Rightarrow> (py_exception + unit) \<times> state" where
  "os_replace e src dst s =
     (let s1 = called (Replace src dst) s
      in case os_error e (Replace src dst) of
           Some ex \<Rightarrow> (Inl ex, s1)
         | None \<Rightarrow>
             (case files s1 src of
                None \<Rightarrow> (Inl (PyExc FileNotFoundError src), s1)
              | Some c \<Rightarrow>
                  (if src = dst then (Inr (), s1)
                   else (Inr (), s1\<lparr>files := ((files s1)(dst \<mapsto> c))(src := None)\<rparr>))))"

text \<open>utils.py, \<open>write_json_atomic\<close>. Opening the temporary file for writing creates it
  empty; a failure while \<^verbatim>\<open>json.dump\<close> writes leaves a prefix of the text in it.\<close>

definition write_json_atomic ::
  "env \<Rightarrow> string \<Rightarrow> payload \<Rightarrow> state \<Rightarrow> (py_exception + unit) \<times> state" where
  "write_json_atomic e path data s =
     (let tmp = path @ ''.tmp'';
          s1 = called (OpenWrite tmp) s
      in case os_error e (OpenWrite tmp) of
           Some ex \<Rightarrow> (Inl ex, s1)
         | None \<Rightarrow>
             (let s2 = called (WriteData tmp) (s1\<lparr>files := (files s1)(tmp \<mapsto> [])\<rparr>)
              in case os_error e (WriteData tmp) of
                   Some ex \<Rightarrow>
                     (Inl ex, s2\<lparr>files := (files s2)(tmp \<mapsto>
                        take (written_before_failure e) (json_dumps e data))\<rparr>)
                 | None \<Rightarrow>
                     os_replace e tmp path (s2\<lparr>files := (files s2)(tmp \<mapsto> json_dumps e data)\<rparr>)))"

definition mkdtemp :: "env \<Rightarrow> string \<Rightarrow> state \<Rightarrow> (py_exception + string) \<times> state" where
  "mkdtemp e pre s =
     (let s1 = called (Mkdtemp pre) s
      in case os_error e (Mkdtemp pre) of
           Some ex \<Rightarrow> (Inl ex, s1)
         | None \<Rightarrow> (Inr (mkdtemp_name e pre), s1\<lparr>dirs := insert (mkdtemp_name e pre) (dirs s1)\<rparr>))"

definition inside :: "string \<Rightarrow> string \<Rightarrow> bool" where
  "inside d p = prefix (rstrip_slash d @ ''/'') p"

text \<open>\<^verbatim>\<open>shutil.rmtree(d, ignore_errors=True)\<close>: never raises; the directory and what it
  holds are gone afterwards.\<close>

definition rmtree :: "string \<Rightarrow> state \<Rightarrow> state" where
  "rmtree d s =
     (let s1 = called (Rmtree d) s
      in s1\<lparr>files := (\<lambda>p. if inside d p then None else files s1 p),
            dirs := {x. x \<in> dirs s1 \<and> x \<noteq> d \<and> \<not> inside d x}\<rparr>)"

definition os_makedirs :: "env \<Rightarrow> string \<Rightarrow> state \<Rightarrow> (py_exception + unit) \<times> state" where
  "os_makedirs e d s =
     (let s1 = called (Makedirs d) s
      in case os_error e (Makedirs d) of
           Some ex \<Rightarrow> (Inl ex, s1)
         | None \<Rightarrow> (Inr (), s1\<lparr>dirs := insert d (dirs s1)\<rparr>))"

text \<open>\<^verbatim>\<open>shutil.copy(src, dst)\<close>: into \<open>dst\<close> when it is a directory; it refuses to copy a
  file onto itself before it opens anything. The trace records the copy with the file it
  writes.\<close>

definition shutil_copy :: "env \<Rightarrow> string \<Rightarrow> string \<Rightarrow> state \<Rightarrow> (py_exception + unit) \<times> state" where
  "shutil_copy e src dst s =
     (let target = (if dst \<in> dirs s then path_join dst (basename src) else dst)
      in if src = target then (Inl (PyExc SameFileError src), s)
         else (let s1 = called (Copy src target) s
               in case files s1 src of
                    None \<Rightarrow> (Inl (PyExc FileNotFoundError src), s1)
                  | Some c \<Rightarrow>
                      (case os_error e (Copy src target) of
                         Some ex \<Rightarrow> (Inl ex, s1)
                       | None \<Rightarrow> (Inr (), s1\<lparr>files := (files s1)(target \<mapsto> c)\<rparr>))))"

definition os_remove :: "env \<Rightarrow> string \<Rightarrow> state \<Rightarrow> (py_exception + unit) \<times> state" where
  "os_remove e p s =
     (let s1 = called (Remove p) s
      in case os_error e (Remove p) of
           Some ex \<Rightarrow> (Inl ex, s1)
         | None \<Rightarrow>
             (case files s1 p of
                None \<Rightarrow> (Inl (PyExc FileNotFoundError p), s1)
              | Some c \<Rightarrow> (Inr (), s1\<lparr>files := (files s1)(p := None)\<rparr>)))"

section \<open>The run (disk\_monitor.py, \<open>run\<close>)\<close>

text \<open>
  The configuration as \<^verbatim>\<open>load_config\<close> returned it: \<open>None\<close> is an absent key, so that
  \<^verbatim>\<open>cfg["k"]\<close> raises \<open>KeyError\<close> and \<^verbatim>\<open>cfg.get("k", d)\<close> gives \<open>d\<close>. The values have
  the types \<open>run\<close> uses them at.
\<close>

record config =
  monitoring_node_ip :: "string option"
  monitoring_node_user :: "string option"
  monitoring_node_receive_dir :: "string option"
  port :: "int option"
  keep_local_copy :: "bool option"

definition cfg_item :: "string \<Rightarrow> 'a option \<Rightarrow> py_exception + 'a" where
  "cfg_item k v =
     (case v of None \<Rightarrow> Inl (PyExc KeyError ([CHR 0x27] @ k @ [CHR 0x27])) | Some x \<Rightarrow> Inr x)"

definition cfg_get :: "'a option \<Rightarrow> 'a \<Rightarrow> 'a" where
  "cfg_get v d = (case v of None \<Rightarrow> d | Some x \<Rightarrow> x)"

definition timestamp :: "env \<Rightarrow> string" where
  "timestamp e = utcnow_isoformat e @ ''Z''"

definition add_note :: "string \<Rightarrow> payload \<Rightarrow> payload" where
  "add_note n pl = pl\<lparr>p_notes := p_notes pl @ [n]\<rparr>"

text \<open>Lines 82 to 84: the probe of every disk, in order, appended to \<^verbatim>\<open>payload["smart"]\<close>.\<close>

fun smart_loop ::
  "env \<Rightarrow> string list \<Rightarrow> payload \<Rightarrow> state \<Rightarrow> (py_exception + payload) \<times> state" where
  "smart_loop e [] pl s = (Inr pl, s)"
| "smart_loop e (d # ds) pl s =
     (case smart_check e d s of
        (Inl ex, s') \<Rightarrow> (Inl ex, s')
      | (Inr sc, s') \<Rightarrow> smart_loop e ds (pl\<lparr>smart := smart pl @ [sc]\<rparr>) s')"

text \<open>Lines 69 to 84: the payload, with the partitions, then the SMART results or the
  note that there is no disk.\<close>

definition build_payload :: "env \<Rightarrow> string \<Rightarrow> state \<Rightarrow> (py_exception + payload) \<times> state" where
  "build_payload e hostname s =
     (let collected = timestamp e
      in case collect_disk_usage e of
           Inl ex \<Rightarrow> (Inl ex, s)
         | Inr partitions \<Rightarrow>
             (let payload = \<lparr>collected_at = collected, host = hostname,
                             disk_partitions = partitions, smart = [], p_notes = []\<rparr>
              in case list_block_disks e s of
                   (Inl ex, s1) \<Rightarrow> (Inl ex, s1)
                 | (Inr disks, s1) \<Rightarrow>
                     (if disks = []
                      then (Inr (add_note ''no-block-disks-found-or-lsblk-failed'' payload), s1)
                      else smart_loop e disks payload s1)))"

definition mkdir_cmd :: "int \<Rightarrow> string \<Rightarrow> string \<Rightarrow> string \<Rightarrow> string list" where
  "mkdir_cmd monitor_port monitor_user monitor_ip remote_subdir =
     [''ssh'', ''-o'', ''StrictHostKeyChecking=no'', ''-p'', str_int monitor_port,
      monitor_user @ ''@'' @ monitor_ip,
      ''mkdir -p '' @ remote_subdir @ '' && chmod 750 '' @ remote_subdir]"

definition scp_cmd :: "int \<Rightarrow> string \<Rightarrow> string \<Rightarrow> string \<Rightarrow> string \<Rightarrow> string list" where
  "scp_cmd monitor_port local_path monitor_user monitor_ip remote_subdir =
     [''scp'', ''-o'', ''StrictHostKeyChecking=no'', ''-P'', str_int monitor_port,
      local_path, monitor_user @ ''@'' @ monitor_ip @ '':'' @ remote_subdir @ ''/'']"

text \<open>Lines 94 to 119: the remote directory, then the transfer. The state and the
  in-memory payload are returned on every path, also when an exception leaves the block.\<close>

definition deliver ::
  "env \<Rightarrow> config \<Rightarrow> string \<Rightarrow> string \<Rightarrow> payload \<Rightarrow> state
     \<Rightarrow> (py_exception + unit) \<times> state \<times> payload" where
  "deliver e cfg hostname local_path pl s =
     (case cfg_item ''monitoring_node_ip'' (monitoring_node_ip cfg) of
        Inl ex \<Rightarrow> (Inl ex, s, pl)
      | Inr monitor_ip \<Rightarrow>
     (case cfg_item ''monitoring_node_user'' (monitoring_node_user cfg) of
        Inl ex \<Rightarrow> (Inl ex, s, pl)
      | Inr monitor_user \<Rightarrow>
     (case cfg_item ''monitoring_node_receive_dir'' (monitoring_node_receive_dir cfg) of
        Inl ex \<Rightarrow> (Inl ex, s, pl)
      | Inr monitor_dir \<Rightarrow>
     (let monitor_port = cfg_get (port cfg) 22;
          remote_subdir = rstrip_slash monitor_dir @ ''/'' @ hostname;
          s1 = logger_log Info ''Ensuring remote directory exists: %s'' [PStr remote_subdir] s
      in case subprocess_run e (mkdir_cmd monitor_port monitor_user monitor_ip remote_subdir) s1 of
           (Inl ex, s2) \<Rightarrow> (Inl ex, s2, pl)
         | (Inr mk, s2) \<Rightarrow>
             (if returncode mk \<noteq> 0
              then (Inr (),
                    logger_log Warning ''Remote mkdir failed: rc=%s stderr=%s''
                      [PInt (returncode mk), PStr (strip (stderr mk))] s2,
                    add_note ''remote_mkdir_failed'' pl)
              else
                (case subprocess_run e
                        (scp_cmd monitor_port local_path monitor_user monitor_ip remote_subdir) s2 of
                   (Inl ex, s3) \<Rightarrow> (Inl ex, s3, pl)
                 | (Inr scp, s3) \<Rightarrow>
                     (if returncode scp \<noteq> 0
                      then (Inr (),
                            logger_log Error ''SCP failed: rc=%s stderr=%s''
                              [PInt (returncode scp), PStr (strip (stderr scp))] s3,
                            add_note ''scp_failed'' pl)
                      else (Inr (), logger_log Info ''SCP succeeded'' [] s3, pl))))))))"

text \<open>Lines 120 to 126: keep a copy in the archive directory, or delete the staged file.\<close>

definition retain :: "env \<Rightarrow> config \<Rightarrow> string \<Rightarrow> state \<Rightarrow> (py_exception + unit) \<times> state" where
  "retain e cfg local_path s =
     (if cfg_get (keep_local_copy cfg) False
      then (let dest_local = expanduser e ''~/client_node/sent_payloads''
            in case os_makedirs e dest_local s of
                 (Inl ex, s1) \<Rightarrow> (Inl ex, s1)
               | (Inr u, s1) \<Rightarrow>
                   shutil_copy e local_path (path_join dest_local (basename local_path)) s1)
      else os_remove e local_path s)"

text \<open>Lines 89 to 126: the body of the \<^verbatim>\<open>try\<close>.\<close>

definition run_try ::
  "env \<Rightarrow> config \<Rightarrow> string \<Rightarrow> string \<Rightarrow> payload \<Rightarrow> state
     \<Rightarrow> (py_exception + unit) \<times> state \<times> payload" where
  "run_try e cfg hostname tmpdir pl s =
     (let filename = hostname @ ''_'' @ replace_colons (collected_at pl) @ ''.json'';
          local_path = path_join tmpdir filename
      in case write_json_atomic e local_path pl s of
           (Inl ex, s1) \<Rightarrow> (Inl ex, s1, pl)
         | (Inr u, s1) \<Rightarrow>
             (case deliver e cfg hostname local_path pl
                     (logger_log Info ''Wrote payload to %s'' [PStr local_path] s1) of
                (Inl ex, s2, pl') \<Rightarrow> (Inl ex, s2, pl')
              | (Inr u, s2, pl') \<Rightarrow>
                  (case retain e cfg local_path s2 of (r, s3) \<Rightarrow> (r, s3, pl'))))"

text \<open>
  Lines 66 to 129, from the first log line on: \<^verbatim>\<open>load_config\<close> and \<^verbatim>\<open>setup_logger\<close> have
  returned, \<open>cfg\<close> is the configuration and the log sink is part of the state. The result
  is what the run raises (\<open>Inl\<close>) or that it returns, the final state, and the in-memory
  payload at that moment (\<open>None\<close> when the run ends before the payload is complete). The
  staging directory is removed in the \<^verbatim>\<open>finally\<close> block, whatever the body did.
\<close>

definition run ::
  "env \<Rightarrow> config \<Rightarrow> state \<Rightarrow> (py_exception + unit) \<times> state \<times> payload option" where
  "run e cfg s =
     (let hostname = gethostname e;
          s1 = logger_log Info ''Starting disk monitor run on host %s'' [PStr hostname] s
      in case build_payload e hostname s1 of
           (Inl ex, s2) \<Rightarrow> (Inl ex, s2, None)
         | (Inr pl, s2) \<Rightarrow>
             (case mkdtemp e ''client_disk_'' s2 of
                (Inl ex, s3) \<Rightarrow> (Inl ex, s3, Some pl)
              | (Inr tmpdir, s3) \<Rightarrow>
                  (case run_try e cfg hostname tmpdir pl s3 of
                     (Inl ex, s4, pl') \<Rightarrow> (Inl ex, rmtree tmpdir s4, Some pl')
                   | (Inr u, s4, pl') \<Rightarrow>
                       (Inr (), logger_log Info ''Run finished.'' [] (rmtree tmpdir s4), Some pl'))))"

section \<open>Reading the trace\<close>

text \<open>The calls a run added to the trace of the state it started from.\<close>

definition events_since :: "state \<Rightarrow> state \<Rightarrow> syscall list" where
  "events_since s s' = drop (length (trace s)) (trace s')"

text \<open>\<open>spawns tool c\<close>: the call \<open>c\<close> starts the program \<open>tool\<close>.\<close>

fun spawns :: "string \<Rightarrow> syscall \<Rightarrow> bool" where
  "spawns tool (Spawn argv) = (take 1 argv = [tool])"
| "spawns tool c = False"

text \<open>\<open>writes_to p c\<close>: the call \<open>c\<close> creates or changes the content of the file \<open>p\<close>.
  Deleting a file (\<open>Remove\<close>, \<open>Rmtree\<close>) does not change its bytes.\<close>

fun writes_to :: "string \<Rightarrow> syscall \<Rightarrow> bool" where
  "writes_to p (OpenWrite q) = (q = p)"
| "writes_to p (WriteData q) = (q = p)"
| "writes_to p (Replace src dst) = (src = p \<or> dst = p)"
| "writes_to p (Copy src dst) = (dst = p)"
| "writes_to p c = False"

text \<open>The calls of the retention step: the archive directory, the copy, the removal.\<close>

fun retention_call :: "syscall \<Rightarrow> bool" where
  "retention_call (Makedirs d) = True"
| "retention_call (Copy src dst) = True"
| "retention_call (Remove p) = True"
| "retention_call c = False"

text \<open>The path \<open>run\<close> stages the report at: \<open>local_path\<close> of line 90.\<close>

definition staged_path :: "env \<Rightarrow> payload \<Rightarrow> string" where
  "staged_path e pl =
     path_join (mkdtemp_name e ''client_disk_'')
       (gethostname e @ ''_'' @ replace_colons (collected_at pl) @ ''.json'')"

section \<open>Sample hosts\<close>

definition fresh_state :: state where
  "fresh_state = \<lparr>files = Map.empty, dirs = {}, logged = [], trace = []\<rparr>"

definition sample_dumps :: "payload \<Rightarrow> string" where
  "sample_dumps pl = host pl @ ''|'' @ collected_at pl @ ''|'' @ concat (p_notes pl)"

text \<open>A host with two mounts, one of them unreadable, one disk \<^verbatim>\<open>sda\<close> and a CD drive,
  on which every tool succeeds.\<close>

definition sample_env :: env where
  "sample_env =
     \<lparr>gethostname = ''node1'',
      utcnow_isoformat = ''2024-05-01T10:20:30'',
      psutil_disk_partitions =
        [\<lparr>device = ''/dev/sda1'', mountpoint = ''/'', fstype = ''ext4'', opts = ''rw''\<rparr>,
         \<lparr>device = ''/dev/sda2'', mountpoint = ''/secret'', fstype = ''ext4'', opts = ''rw''\<rparr>],
      psutil_disk_usage =
        (\<lambda>m. if m = ''/secret'' then Inl (PyExc PermissionError ''[Errno 13] Permission denied'')
             else Inr \<lparr>u_total = 100, u_used = 40, u_free = 60, u_percent = 40\<rparr>),
      proc =
        (\<lambda>argv. if take 1 argv = [''lsblk'']
                then Inr \<lparr>returncode = 0,
                          stdout = ''sda disk'' @ [CHR 0x0A] @ ''sr0 rom'' @ [CHR 0x0A],
                          stderr = []\<rparr>
                else if take 1 argv = [''smartctl'']
                then Inr \<lparr>returncode = 0, stdout = ''test result: PASSED'', stderr = []\<rparr>
                else Inr \<lparr>returncode = 0, stdout = [], stderr = []\<rparr>),
      os_error = (\<lambda>c. None),
      mkdtemp_name = (\<lambda>pre. ''/tmp/'' @ pre @ ''x1''),
      written_before_failure = 0,
      json_dumps = sample_dumps,
      expanduser = (\<lambda>p. ''/root'' @ drop 1 p)\<rparr>"

definition sample_cfg :: config where
  "sample_cfg =
     \<lparr>monitoring_node_ip = Some ''10.0.0.5'', monitoring_node_user = Some ''mon'',
      monitoring_node_receive_dir = Some ''/srv/recv/'', port = None, keep_local_copy = None\<rparr>"

text \<open>The same host when one tool is missing, fails or is interrupted.\<close>

definition tool_outcome ::
  "string \<Rightarrow> py_exception + completed_process \<Rightarrow> env \<Rightarrow> env" where
  "tool_outcome tool r e = e\<lparr>proc := (\<lambda>argv. if take 1 argv = [tool] then r else proc e argv)\<rparr>"

definition exits :: "int \<Rightarrow> py_exception + completed_process" where
  "exits rc = Inr \<lparr>returncode = rc, stdout = [], stderr = '' failed ''\<rparr>"

definition not_installed :: "string \<Rightarrow> py_exception + completed_process" where
  "not_installed tool =
     Inl (PyExc FileNotFoundError (''[Errno 2] No such file or directory: '' @ tool))"

text \<open>\<^verbatim>\<open>MemoryError()\<close> has the empty text; \<^verbatim>\<open>TimeoutExpired\<close> names the command.\<close>

definition memory_error :: "py_exception + completed_process" where
  "memory_error = Inl (PyExc OtherException [])"

definition timed_out :: "py_exception + completed_process" where
  "timed_out = Inl (PyExc TimeoutExpired ''Command timed out after 20 seconds'')"

text \<open>\<open>call_fails c ex e\<close>: the host \<open>e\<close> on which the call \<open>c\<close> raises \<open>ex\<close>.\<close>

definition call_fails :: "syscall \<Rightarrow> py_exception \<Rightarrow> env \<Rightarrow> env" where
  "call_fails c ex e = e\<lparr>os_error := (\<lambda>c'. if c' = c then Some ex else os_error e c')\<rparr>"

definition sample_payload :: payload where
  "sample_payload =
     \<lparr>collected_at = ''2024-05-01T10:20:30Z'', host = ''node1'', disk_partitions = [],
      smart = [], p_notes = [''no-block-disks-found-or-lsblk-failed'']\<rparr>"



section \<open>The SMART probe: status and boundary\<close>

lemma smart_check_result:
  "fst (smart_check e dev s) =
     (case proc e [''smartctl'', ''-H'', dev] of
        Inr res \<Rightarrow>
          Inr [(''device'', PStr dev), (''returncode'', PInt (returncode res)),
               (''stdout'', PStr (stdout res)), (''stderr'', PStr (stderr res)),
               (''status'', PStr (if returncode res = 0
                                  then (if passed_marker (stdout res) then ''OK'' else ''UNKNOWN'')
                                  else ''ERROR''))]
      | Inl ex \<Rightarrow>
          (if exc_cls ex = FileNotFoundError
           then Inr [(''device'', PStr dev), (''error'', PStr ''smartctl-not-installed'')]
           else if is_Exception (exc_cls ex)
           then Inr [(''device'', PStr dev), (''error'', PStr (exc_str ex))]
           else Inl ex))"
  by (simp add: smart_check_def subprocess_run_def split: sum.splits)

text \<open>
  Claim C1, as the code has it. The status follows the outcome of \<^verbatim>\<open>smartctl -H\<close>: exit
  code 0 with a PASSED marker in the output is OK, exit code 0 without it is UNKNOWN, any
  other exit code is ERROR. When the executable is missing the result is UNAVAILABLE (an
  \<^verbatim>\<open>error\<close> entry, no \<^verbatim>\<open>status\<close> entry) and its description is the text
  \<^verbatim>\<open>smartctl-not-installed\<close>. Any other exception that \<^verbatim>\<open>except Exception\<close> catches also
  gives UNAVAILABLE, and the description is then \<^verbatim>\<open>str(e)\<close>, whatever that text is. Every
  result the probe returns has one of the four statuses.
\<close>

theorem smart_check_status:
  "(case proc e [''smartctl'', ''-H'', dev] of
      Inr res \<Rightarrow>
        (\<exists>d. fst (smart_check e dev s) = Inr d \<and>
           spec_status d =
             Some (if returncode res = 0
                   then (if passed_marker (stdout res) then OK else UNKNOWN)
                   else ERROR))
    | Inl ex \<Rightarrow>
        (if exc_cls ex = FileNotFoundError
         then (\<exists>d. fst (smart_check e dev s) = Inr d \<and> spec_status d = Some UNAVAILABLE \<and>
                 error_description d = Some (PStr ''smartctl-not-installed''))
         else if is_Exception (exc_cls ex)
         then (\<exists>d. fst (smart_check e dev s) = Inr d \<and> spec_status d = Some UNAVAILABLE \<and>
                 error_description d = Some (PStr (exc_str ex)))
         else fst (smart_check e dev s) = Inl ex))
   \<and> (\<forall>d. fst (smart_check e dev s) = Inr d \<longrightarrow>
          spec_status d \<in> {Some OK, Some UNKNOWN, Some ERROR, Some UNAVAILABLE})"
  by (simp add: smart_check_result spec_status_def error_description_def split: sum.splits)

theorem smart_check_status_witness:
  "fst (smart_check (tool_outcome ''smartctl'' (not_installed ''smartctl'') sample_env)
          ''/dev/sda'' fresh_state)
     = Inr [(''device'', PStr ''/dev/sda''), (''error'', PStr ''smartctl-not-installed'')]
   \<and> spec_status [(''device'', PStr ''/dev/sda''), (''error'', PStr ''smartctl-not-installed'')]
       \<in> {Some OK, Some UNKNOWN, Some ERROR, Some UNAVAILABLE}"
  using smart_check_status [of "tool_outcome ''smartctl'' (not_installed ''smartctl'') sample_env"
      "''/dev/sda''" fresh_state]
  by (simp add: smart_check_result tool_outcome_def not_installed_def sample_env_def)

text \<open>
  Claim C1 as it is written fails: when \<^verbatim>\<open>subprocess.run\<close> raises an exception whose text
  is empty (\<^verbatim>\<open>MemoryError()\<close>), the probe of \<^verbatim>\<open>/dev/sda\<close> returns an UNAVAILABLE result
  whose error description is the empty string.
\<close>

theorem smart_check_empty_description:
  "fst (smart_check (tool_outcome ''smartctl'' memory_error sample_env) ''/dev/sda'' fresh_state)
     = Inr [(''device'', PStr ''/dev/sda''), (''error'', PStr [])]
   \<and> spec_status [(''device'', PStr ''/dev/sda''), (''error'', PStr [])] = Some UNAVAILABLE
   \<and> error_description [(''device'', PStr ''/dev/sda''), (''error'', PStr [])] = Some (PStr [])"
  by (simp add: smart_check_result tool_outcome_def memory_error_def sample_env_def
      is_Exception_def spec_status_def error_description_def)

text \<open>
  Claim C3. Whatever the probe process does (it exits with any code and output, cannot be
  started, runs into the timeout, or fails in any other way that reaches Python as an
  \<open>Exception\<close>), \<open>smart_check\<close> returns a well-formed result and raises nothing; a failure
  other than the missing executable becomes an UNAVAILABLE result that carries the
  failure's text.
\<close>

theorem smart_check_never_raises:
  assumes "\<forall>ex. proc e [''smartctl'', ''-H'', dev] = Inl ex \<longrightarrow> is_Exception (exc_cls ex)"
  shows "\<exists>d. fst (smart_check e dev s) = Inr d \<and> spec_well_formed dev d \<and>
           (\<forall>ex. proc e [''smartctl'', ''-H'', dev] = Inl ex \<and> exc_cls ex \<noteq> FileNotFoundError
              \<longrightarrow> spec_status d = Some UNAVAILABLE \<and>
                  error_description d = Some (PStr (exc_str ex)))"
  using assms
  by (cases "proc e [''smartctl'', ''-H'', dev]")
     (simp_all add: smart_check_result spec_well_formed_def spec_status_def
        error_description_def raw_output_def)

theorem smart_check_never_raises_witness:
  "fst (smart_check (tool_outcome ''smartctl'' timed_out sample_env) ''/dev/sda'' fresh_state)
     = Inr [(''device'', PStr ''/dev/sda''), (''error'', PStr ''Command timed out after 20 seconds'')]
   \<and> spec_well_formed ''/dev/sda''
         [(''device'', PStr ''/dev/sda''), (''error'', PStr ''Command timed out after 20 seconds'')]"
  using smart_check_never_raises [of "tool_outcome ''smartctl'' timed_out sample_env"
      "''/dev/sda''" fresh_state]
  by (simp add: smart_check_result tool_outcome_def timed_out_def sample_env_def is_Exception_def)

section \<open>Partition usage\<close>

lemma collect_loop_result:
  "collect_loop e ps acc = Inr out \<Longrightarrow>
     out = acc @ map (\<lambda>p. partition_entry p (projr (psutil_disk_usage e (mountpoint p))))
                   (filter (\<lambda>p. \<not> isl (psutil_disk_usage e (mountpoint p))) ps)"
proof (induction ps arbitrary: acc)
  case Nil
  then show ?case by simp
next
  case (Cons p ps)
  show ?case
  proof (cases "psutil_disk_usage e (mountpoint p)")
    case (Inl ex)
    with Cons.prems have "collect_loop e ps acc = Inr out"
      by (simp split: if_splits)
    from Cons.IH [OF this] Inl show ?thesis by simp
  next
    case (Inr usage)
    with Cons.prems have "collect_loop e ps (acc @ [partition_entry p usage]) = Inr out"
      by simp
    from Cons.IH [OF this] Inr show ?thesis by simp
  qed
qed

lemma collect_loop_returns:
  "\<forall>p\<in>set ps. \<forall>ex. psutil_disk_usage e (mountpoint p) = Inl ex \<longrightarrow> exc_cls ex = PermissionError
   \<Longrightarrow> \<exists>out. collect_loop e ps acc = Inr out"
  by (induction ps arbitrary: acc) (auto split: sum.splits)

lemma partition_entry_keys:
  "map_of (partition_entry p u) ''mountpoint'' = Some (PStr (mountpoint p))"
  "map_of (partition_entry p u) ''error'' = None"
  by (simp_all add: partition_entry_def)

text \<open>
  Claim C9. When no capacity query fails for another reason than a permission error, the
  collector returns; and what it returns is one entry for every mount whose query
  succeeded, in order, and nothing else: a mount whose query raised \<open>PermissionError\<close> has
  no entry, and no entry is an error entry.
\<close>

theorem collect_disk_usage_skips_denied:
  "((\<forall>p\<in>set (psutil_disk_partitions e). \<forall>ex.
        psutil_disk_usage e (mountpoint p) = Inl ex \<longrightarrow> exc_cls ex = PermissionError)
      \<longrightarrow> (\<exists>out. collect_disk_usage e = Inr out))
   \<and> (\<forall>out. collect_disk_usage e = Inr out \<longrightarrow>
         out = map (\<lambda>p. partition_entry p (projr (psutil_disk_usage e (mountpoint p))))
                 (filter (\<lambda>p. \<not> isl (psutil_disk_usage e (mountpoint p)))
                    (psutil_disk_partitions e))
         \<and> (\<forall>p\<in>set (psutil_disk_partitions e). \<forall>ex.
               psutil_disk_usage e (mountpoint p) = Inl ex \<longrightarrow>
                 (\<forall>d\<in>set out. map_of d ''mountpoint'' \<noteq> Some (PStr (mountpoint p))))
         \<and> (\<forall>d\<in>set out. map_of d ''error'' = None))"
proof (intro conjI allI impI)
  assume "\<forall>p\<in>set (psutil_disk_partitions e). \<forall>ex.
        psutil_disk_usage e (mountpoint p) = Inl ex \<longrightarrow> exc_cls ex = PermissionError"
  then show "\<exists>out. collect_disk_usage e = Inr out"
    unfolding collect_disk_usage_def by (rule collect_loop_returns)
next
  fix out
  assume "collect_disk_usage e = Inr out"
  then have out: "out = map (\<lambda>p. partition_entry p (projr (psutil_disk_usage e (mountpoint p))))
                 (filter (\<lambda>p. \<not> isl (psutil_disk_usage e (mountpoint p)))
                    (psutil_disk_partitions e))"
    unfolding collect_disk_usage_def using collect_loop_result [of e _ "[]" out] by simp
  show "out = map (\<lambda>p. partition_entry p (projr (psutil_disk_usage e (mountpoint p))))
                 (filter (\<lambda>p. \<not> isl (psutil_disk_usage e (mountpoint p)))
                    (psutil_disk_partitions e))"
    by (rule out)
  show "\<forall>p\<in>set (psutil_disk_partitions e). \<forall>ex.
               psutil_disk_usage e (mountpoint p) = Inl ex \<longrightarrow>
                 (\<forall>d\<in>set out. map_of d ''mountpoint'' \<noteq> Some (PStr (mountpoint p)))"
    unfolding out by (auto simp: partition_entry_keys)
  show "\<forall>d\<in>set out. map_of d ''error'' = None"
    unfolding out by (auto simp: partition_entry_keys)
qed

theorem collect_disk_usage_skips_denied_witness:
  "collect_disk_usage sample_env =
     Inr [partition_entry
            \<lparr>device = ''/dev/sda1'', mountpoint = ''/'', fstype = ''ext4'', opts = ''rw''\<rparr>
            \<lparr>u_total = 100, u_used = 40, u_free = 60, u_percent = 40\<rparr>]
   \<and> psutil_disk_usage sample_env ''/secret''
       = Inl (PyExc PermissionError ''[Errno 13] Permission denied'')"
  using collect_disk_usage_skips_denied [of sample_env]
  by (simp add: sample_env_def collect_disk_usage_def)

section \<open>The durable write\<close>

lemma path_head_tmp: "path_head (p @ ''.tmp'') = path_head p"
  by (simp add: path_head_def)

lemma dirname_tmp: "dirname (p @ ''.tmp'') = dirname p"
  by (simp add: dirname_def path_head_tmp)

lemma events_since_append [simp]:
  "trace s' = trace s @ evs \<Longrightarrow> events_since s s' = evs"
  by (simp add: events_since_def)

lemma write_json_atomic_result:
  "write_json_atomic e path data s = (r, s') \<Longrightarrow>
     dirs s' = dirs s \<and> logged s' = logged s \<and>
     (\<forall>q. q \<noteq> path \<and> q \<noteq> path @ ''.tmp'' \<longrightarrow> files s' q = files s q) \<and>
     (case r of
        Inr u \<Rightarrow>
          trace s' = trace s @ [OpenWrite (path @ ''.tmp''), WriteData (path @ ''.tmp''),
                               Replace (path @ ''.tmp'') path] \<and>
          files s' path = Some (json_dumps e data) \<and> files s' (path @ ''.tmp'') = None
      | Inl ex \<Rightarrow>
          files s' path = files s path \<and>
          (\<exists>evs. trace s' = trace s @ evs \<and>
             set evs \<subseteq> {OpenWrite (path @ ''.tmp''), WriteData (path @ ''.tmp''),
                        Replace (path @ ''.tmp'') path} \<and>
             (Replace (path @ ''.tmp'') path \<in> set evs \<longrightarrow>
                os_error e (Replace (path @ ''.tmp'') path) = Some ex \<and>
                files s' (path @ ''.tmp'') = Some (json_dumps e data))))"
  by (auto simp: write_json_atomic_def os_replace_def called_def Let_def
      split: option.splits if_splits)

text \<open>
  Claim C2. \<open>write_json_atomic\<close> writes the serialized report to \<^verbatim>\<open>path + ".tmp"\<close>, which
  lies in the directory of \<open>path\<close>, and then renames it onto \<open>path\<close>, in this order. When
  the temporary file has been written and the run is interrupted at the rename (the
  \<^verbatim>\<open>os.replace\<close> call raises instead of taking effect), the temporary file holds the
  whole text and the final path is as it was: no file is there if none was there before.
  When the operation completes, the final path holds exactly the serialized report.
\<close>

theorem write_json_atomic_atomic:
  "dirname (path @ ''.tmp'') = dirname path
   \<and> (os_error e (OpenWrite (path @ ''.tmp'')) = None \<and>
        os_error e (WriteData (path @ ''.tmp'')) = None \<longrightarrow>
        (\<exists>s'. snd (write_json_atomic e path data s) = s' \<and>
           events_since s s' = [OpenWrite (path @ ''.tmp''), WriteData (path @ ''.tmp''),
                                Replace (path @ ''.tmp'') path] \<and>
           (case os_error e (Replace (path @ ''.tmp'') path) of
              Some ex \<Rightarrow>
                fst (write_json_atomic e path data s) = Inl ex \<and>
                files s' (path @ ''.tmp'') = Some (json_dumps e data) \<and>
                files s' path = files s path \<and>
                (files s path = None \<longrightarrow> files s' path = None)
            | None \<Rightarrow>
                fst (write_json_atomic e path data s) = Inr () \<and>
                files s' path = Some (json_dumps e data) \<and>
                files s' (path @ ''.tmp'') = None)))
   \<and> (\<forall>s'. write_json_atomic e path data s = (Inr (), s') \<longrightarrow>
          files s' path = Some (json_dumps e data))"
proof (intro conjI impI allI)
  show "dirname (path @ ''.tmp'') = dirname path"
    by (rule dirname_tmp)
next
  assume "os_error e (OpenWrite (path @ ''.tmp'')) = None \<and>
        os_error e (WriteData (path @ ''.tmp'')) = None"
  then show "\<exists>s'. snd (write_json_atomic e path data s) = s' \<and>
           events_since s s' = [OpenWrite (path @ ''.tmp''), WriteData (path @ ''.tmp''),
                                Replace (path @ ''.tmp'') path] \<and>
           (case os_error e (Replace (path @ ''.tmp'') path) of
              Some ex \<Rightarrow>
                fst (write_json_atomic e path data s) = Inl ex \<and>
                files s' (path @ ''.tmp'') = Some (json_dumps e data) \<and>
                files s' path = files s path \<and>
                (files s path = None \<longrightarrow> files s' path = None)
            | None \<Rightarrow>
                fst (write_json_atomic e path data s) = Inr () \<and>
                files s' path = Some (json_dumps e data) \<and>
                files s' (path @ ''.tmp'') = None)"
    by (simp add: write_json_atomic_def os_replace_def called_def Let_def events_since_def
        split: option.splits)
next
  fix s'
  assume "write_json_atomic e path data s = (Inr (), s')"
  from write_json_atomic_result [OF this]
  show "files s' path = Some (json_dumps e data)"
    by simp
qed

theorem write_json_atomic_atomic_witness:
  "fst (write_json_atomic
          (call_fails (Replace ''/tmp/d/r.json.tmp'' ''/tmp/d/r.json'') (PyExc KeyboardInterrupt [])
             sample_env)
          ''/tmp/d/r.json'' sample_payload fresh_state) = Inl (PyExc KeyboardInterrupt [])
   \<and> files (snd (write_json_atomic
          (call_fails (Replace ''/tmp/d/r.json.tmp'' ''/tmp/d/r.json'') (PyExc KeyboardInterrupt [])
             sample_env)
          ''/tmp/d/r.json'' sample_payload fresh_state)) ''/tmp/d/r.json'' = None
   \<and> files (snd (write_json_atomic sample_env ''/tmp/d/r.json'' sample_payload fresh_state))
        ''/tmp/d/r.json'' = Some (sample_dumps sample_payload)"
  using write_json_atomic_atomic [of "''/tmp/d/r.json''"
      "call_fails (Replace ''/tmp/d/r.json.tmp'' ''/tmp/d/r.json'') (PyExc KeyboardInterrupt [])
         sample_env" sample_payload fresh_state]
    write_json_atomic_atomic [of "''/tmp/d/r.json''" sample_env sample_payload fresh_state]
  by (simp add: call_fails_def sample_env_def fresh_state_def)

section \<open>What each stage of the run does to the state\<close>

lemma list_block_disks_state:
  "list_block_disks e s = (r, s') \<Longrightarrow> s' = called (Spawn [''lsblk'', ''-ndo'', ''NAME,TYPE'']) s"
  by (auto simp: list_block_disks_def subprocess_run_def called_def split: sum.splits)

lemma smart_check_state:
  "smart_check e d s = (r, s') \<Longrightarrow> s' = called (Spawn [''smartctl'', ''-H'', d]) s"
  by (auto simp: smart_check_def subprocess_run_def called_def Let_def split: sum.splits if_splits)

lemma smart_loop_state:
  "smart_loop e ds pl s = (r, s') \<Longrightarrow>
     files s' = files s \<and> dirs s' = dirs s \<and> logged s' = logged s \<and>
     (\<exists>evs. trace s' = trace s @ evs \<and> (\<forall>c\<in>set evs. spawns ''smartctl'' c))"
proof (induction ds arbitrary: pl s)
  case Nil
  then show ?case by simp
next
  case (Cons d ds)
  obtain r1 s1 where sc: "smart_check e d s = (r1, s1)"
    by (cases "smart_check e d s")
  have s1: "s1 = called (Spawn [''smartctl'', ''-H'', d]) s"
    by (rule smart_check_state [OF sc])
  show ?case
  proof (cases r1)
    case (Inl ex)
    with Cons.prems sc have "s' = s1" by simp
    with s1 show ?thesis by (simp add: called_def)
  next
    case (Inr res)
    with Cons.prems sc have "smart_loop e ds (pl\<lparr>smart := smart pl @ [res]\<rparr>) s1 = (r, s')"
      by simp
    from Cons.IH [OF this] s1 show ?thesis
      by (auto simp: called_def)
  qed
qed

lemma smart_loop_payload:
  "smart_loop e ds pl s = (Inr pl', s') \<Longrightarrow>
     p_notes pl' = p_notes pl \<and> length (smart pl') = length (smart pl) + length ds"
proof (induction ds arbitrary: pl s)
  case Nil
  then show ?case by simp
next
  case (Cons d ds)
  then show ?case
    by (cases "smart_check e d s") (auto split: sum.splits)
qed

lemma build_payload_state:
  "build_payload e h s = (r, s') \<Longrightarrow>
     files s' = files s \<and> dirs s' = dirs s \<and> logged s' = logged s \<and>
     (\<exists>evs. trace s' = trace s @ evs \<and> (\<forall>c\<in>set evs. spawns ''lsblk'' c \<or> spawns ''smartctl'' c))"
proof -
  assume bp: "build_payload e h s = (r, s')"
  show ?thesis
  proof (cases "collect_disk_usage e")
    case (Inl ex)
    with bp show ?thesis by (simp add: build_payload_def)
  next
    case (Inr parts)
    obtain r1 s1 where lb: "list_block_disks e s = (r1, s1)"
      by (cases "list_block_disks e s")
    have s1: "s1 = called (Spawn [''lsblk'', ''-ndo'', ''NAME,TYPE'']) s"
      by (rule list_block_disks_state [OF lb])
    show ?thesis
    proof (cases r1)
      case (Inl ex)
      with bp Inr lb have "s' = s1" by (simp add: build_payload_def)
      with s1 show ?thesis by (simp add: called_def)
    next
      case disks: (Inr disks)
      show ?thesis
      proof (cases "disks = []")
        case True
        with bp Inr lb disks have "s' = s1" by (simp add: build_payload_def)
        with s1 show ?thesis by (simp add: called_def)
      next
        case False
        with bp Inr lb disks obtain pl where "smart_loop e disks pl s1 = (r, s')"
          by (simp add: build_payload_def)
        from smart_loop_state [OF this] s1 show ?thesis
          by (auto simp: called_def)
      qed
    qed
  qed
qed

lemma build_payload_notes:
  "build_payload e h s = (Inr pl, s') \<Longrightarrow>
     (fst (list_block_disks e s) = Inr [] \<longrightarrow>
        smart pl = [] \<and> p_notes pl = [''no-block-disks-found-or-lsblk-failed'']) \<and>
     (fst (list_block_disks e s) \<noteq> Inr [] \<longrightarrow> p_notes pl = [])"
  by (auto simp: build_payload_def add_note_def Let_def
      split: sum.splits prod.splits if_splits dest: smart_loop_payload)

lemma mkdtemp_result:
  "mkdtemp e pre s = (r, s') \<Longrightarrow>
     files s' = files s \<and> logged s' = logged s \<and> trace s' = trace s @ [Mkdtemp pre] \<and>
     (case r of
        Inl ex \<Rightarrow> os_error e (Mkdtemp pre) = Some ex \<and> dirs s' = dirs s
      | Inr d \<Rightarrow> os_error e (Mkdtemp pre) = None \<and> d = mkdtemp_name e pre \<and>
                 dirs s' = insert d (dirs s))"
  by (auto simp: mkdtemp_def called_def Let_def split: option.splits)

lemma rmtree_result:
  "files (rmtree d s) = (\<lambda>p. if inside d p then None else files s p) \<and>
   dirs (rmtree d s) = {x. x \<in> dirs s \<and> x \<noteq> d \<and> \<not> inside d x} \<and>
   logged (rmtree d s) = logged s \<and> trace (rmtree d s) = trace s @ [Rmtree d]"
  by (simp add: rmtree_def called_def Let_def fun_eq_iff)



lemmas deliver_defs =
  deliver_def cfg_item_def cfg_get_def Let_def subprocess_run_def logger_log_def
  mkdir_cmd_def scp_cmd_def add_note_def events_since_def

lemma deliver_frame:
  "deliver e cfg h lp pl s = (r, s', pl') \<Longrightarrow>
     files s' = files s \<and> dirs s' = dirs s \<and>
     (\<exists>lg. logged s' = logged s @ lg) \<and>
     (\<exists>evs. trace s' = trace s @ evs \<and> (\<forall>c\<in>set evs. spawns ''ssh'' c \<or> spawns ''scp'' c)) \<and>
     (pl' = pl \<or> pl' = add_note ''remote_mkdir_failed'' pl \<or> pl' = add_note ''scp_failed'' pl)"
  unfolding deliver_defs
  by (auto split: option.splits sum.splits if_splits)

lemma deliver_mkdir_failed:
  "deliver e cfg h lp pl s = (r, s', pl') \<Longrightarrow>
   Spawn argv \<in> set (events_since s s') \<Longrightarrow> spawns ''ssh'' (Spawn argv) \<Longrightarrow>
   proc e argv = Inr res \<Longrightarrow> returncode res \<noteq> 0 \<Longrightarrow>
     r = Inr () \<and> pl' = add_note ''remote_mkdir_failed'' pl \<and>
     (Warning, ''Remote mkdir failed: rc=%s stderr=%s'',
        [PInt (returncode res), PStr (strip (stderr res))]) \<in> set (logged s') \<and>
     events_since s s' = [Spawn argv]"
  unfolding deliver_defs
  by (auto split: option.splits sum.splits if_splits)



lemma os_makedirs_result:
  "os_makedirs e d s = (r, s') \<Longrightarrow>
     files s' = files s \<and> logged s' = logged s \<and> trace s' = trace s @ [Makedirs d]"
  by (auto simp: os_makedirs_def called_def Let_def split: option.splits)

lemma os_remove_result:
  "os_remove e p s = (r, s') \<Longrightarrow>
     logged s' = logged s \<and> dirs s' = dirs s \<and> trace s' = trace s @ [Remove p] \<and>
     (files s' = files s \<or> files s' = (files s)(p := None))"
  by (auto simp: os_remove_def called_def Let_def split: option.splits)

lemma shutil_copy_result:
  "shutil_copy e src dst s = (r, s') \<Longrightarrow>
     logged s' = logged s \<and> dirs s' = dirs s \<and>
     ((trace s' = trace s \<and> files s' = files s)
      \<or> (\<exists>target. target \<noteq> src \<and> trace s' = trace s @ [Copy src target] \<and>
            (files s' = files s \<or> files s' = (files s)(target := files s src))))"
  by (auto simp: shutil_copy_def called_def Let_def split: option.splits if_splits)

lemma retain_result:
  assumes "retain e cfg lp s = (r, s')"
  shows "logged s' = logged s \<and>
     (\<exists>evs. trace s' = trace s @ evs \<and> evs \<noteq> [] \<and>
        (\<forall>c\<in>set evs. retention_call c \<and> \<not> writes_to lp c)) \<and>
     (\<forall>q. files s' q = files s q \<or> (q = lp \<and> files s' q = None)
          \<or> (q \<noteq> lp \<and> files s' q = files s lp))"
proof (cases "cfg_get (keep_local_copy cfg) False")
  case False
  with assms have "os_remove e lp s = (r, s')"
    by (simp add: retain_def)
  from os_remove_result [OF this] show ?thesis
    by (auto split: if_splits)
next
  case True
  let ?dest = "expanduser e ''~/client_node/sent_payloads''"
  obtain r1 s1 where mk: "os_makedirs e ?dest s = (r1, s1)"
    by (cases "os_makedirs e ?dest s")
  note m = os_makedirs_result [OF mk]
  show ?thesis
  proof (cases r1)
    case (Inl ex)
    with assms True mk have "s' = s1"
      by (simp add: retain_def)
    with m show ?thesis by simp
  next
    case (Inr u)
    with assms True mk
    have "shutil_copy e lp (path_join ?dest (basename lp)) s1 = (r, s')"
      by (simp add: retain_def)
    from shutil_copy_result [OF this] m show ?thesis
      by (auto split: if_splits)
  qed
qed

lemma run_try_structure:
  "run_try e cfg h d pl s = (r, s', pl') \<Longrightarrow>
     (\<exists>ex. r = Inl ex \<and> pl' = pl \<and>
        write_json_atomic e (path_join d (h @ ''_'' @ replace_colons (collected_at pl) @ ''.json''))
          pl s = (Inl ex, s'))
     \<or> (\<exists>s1 s2 r2.
          write_json_atomic e (path_join d (h @ ''_'' @ replace_colons (collected_at pl) @ ''.json''))
            pl s = (Inr (), s1) \<and>
          deliver e cfg h (path_join d (h @ ''_'' @ replace_colons (collected_at pl) @ ''.json'')) pl
            (logger_log Info ''Wrote payload to %s''
               [PStr (path_join d (h @ ''_'' @ replace_colons (collected_at pl) @ ''.json''))] s1)
            = (r2, s2, pl') \<and>
          ((\<exists>ex. r2 = Inl ex \<and> r = Inl ex \<and> s' = s2)
           \<or> (r2 = Inr () \<and>
               retain e cfg (path_join d (h @ ''_'' @ replace_colons (collected_at pl) @ ''.json''))
                 s2 = (r, s'))))"
  unfolding run_try_def Let_def
  by (auto split: prod.splits sum.splits)

lemma run_structure:
  "run e cfg s = (r, s', plo) \<Longrightarrow>
     (\<exists>evs_b s2. (\<forall>c\<in>set evs_b. spawns ''lsblk'' c \<or> spawns ''smartctl'' c) \<and>
        files s2 = files s \<and> dirs s2 = dirs s \<and>
        logged s2 = logged s @ [(Info, ''Starting disk monitor run on host %s'', [PStr (gethostname e)])] \<and>
        trace s2 = trace s @ evs_b \<and>
        ((\<exists>ex. r = Inl ex \<and> plo = None \<and> s' = s2)
         \<or> (\<exists>ex pl. r = Inl ex \<and> plo = Some pl \<and> os_error e (Mkdtemp ''client_disk_'') = Some ex \<and>
               trace s' = trace s2 @ [Mkdtemp ''client_disk_''])
         \<or> (\<exists>pl pl' s3 s4.
               os_error e (Mkdtemp ''client_disk_'') = None \<and>
               build_payload e (gethostname e)
                 (logger_log Info ''Starting disk monitor run on host %s'' [PStr (gethostname e)] s)
                 = (Inr pl, s2) \<and>
               files s3 = files s \<and> logged s3 = logged s2 \<and>
               dirs s3 = insert (mkdtemp_name e ''client_disk_'') (dirs s) \<and>
               trace s3 = trace s2 @ [Mkdtemp ''client_disk_''] \<and>
               run_try e cfg (gethostname e) (mkdtemp_name e ''client_disk_'') pl s3 = (r, s4, pl') \<and>
               plo = Some pl' \<and>
               trace s' = trace s4 @ [Rmtree (mkdtemp_name e ''client_disk_'')] \<and>
               files s' = (\<lambda>p. if inside (mkdtemp_name e ''client_disk_'') p then None else files s4 p) \<and>
               dirs s' = {x. x \<in> dirs s4 \<and> x \<noteq> mkdtemp_name e ''client_disk_'' \<and>
                            \<not> inside (mkdtemp_name e ''client_disk_'') x} \<and>
               logged s' = logged s4 @ (if r = Inr () then [(Info, ''Run finished.'', [])] else []))))"
proof -
  let ?h = "gethostname e"
  let ?s1 = "logger_log Info ''Starting disk monitor run on host %s'' [PStr ?h] s"
  let ?d = "mkdtemp_name e ''client_disk_''"
  assume run: "run e cfg s = (r, s', plo)"
  obtain rb s2 where bp: "build_payload e ?h ?s1 = (rb, s2)"
    by (cases "build_payload e ?h ?s1")
  from build_payload_state [OF bp] obtain evs_b where
    s2: "files s2 = files s" "dirs s2 = dirs s"
      "logged s2 = logged s @ [(Info, ''Starting disk monitor run on host %s'', [PStr ?h])]"
      "trace s2 = trace s @ evs_b"
      "\<forall>c\<in>set evs_b. spawns ''lsblk'' c \<or> spawns ''smartctl'' c"
    by (auto simp: logger_log_def)
  show ?thesis
  proof (cases rb)
    case (Inl ex)
    with run bp have "r = Inl ex \<and> plo = None \<and> s' = s2"
      by (simp add: run_def Let_def)
    then show ?thesis
      apply -
      apply (rule exI [of _ evs_b], rule exI [of _ s2])
      using s2 apply simp
      done
  next
    case (Inr pl)
    obtain rm s3 where mk: "mkdtemp e ''client_disk_'' s2 = (rm, s3)"
      by (cases "mkdtemp e ''client_disk_'' s2")
    note m = mkdtemp_result [OF mk]
    show ?thesis
    proof (cases rm)
      case (Inl ex)
      with run bp Inr mk have "r = Inl ex \<and> plo = Some pl \<and> s' = s3"
        by (simp add: run_def Let_def)
      then show ?thesis
        apply -
        apply (rule exI [of _ evs_b], rule exI [of _ s2])
        using m Inl s2 apply simp
        done
    next
      case tmp: (Inr tmpdir)
      with m have d: "tmpdir = ?d" "os_error e (Mkdtemp ''client_disk_'') = None"
        and s3: "files s3 = files s2" "logged s3 = logged s2" "dirs s3 = insert ?d (dirs s2)"
          "trace s3 = trace s2 @ [Mkdtemp ''client_disk_'']"
        by auto
      obtain rt s4 pl' where rt: "run_try e cfg ?h ?d pl s3 = (rt, s4, pl')"
        by (cases "run_try e cfg ?h ?d pl s3") auto
      from run bp Inr mk tmp d rt
      have fin: "r = rt" "plo = Some pl'"
          "s' = (if rt = Inr () then logger_log Info ''Run finished.'' [] (rmtree ?d s4)
                 else rmtree ?d s4)"
        by (auto simp: run_def Let_def split: sum.splits)
      have fs: "trace s' = trace s4 @ [Rmtree ?d]"
        "files s' = (\<lambda>p. if inside ?d p then None else files s4 p)"
        "dirs s' = {x. x \<in> dirs s4 \<and> x \<noteq> ?d \<and> \<not> inside ?d x}"
        "logged s' = logged s4 @ (if r = Inr () then [(Info, ''Run finished.'', [])] else [])"
        using fin rmtree_result [of ?d s4] by (simp_all add: logger_log_def)
      have "\<exists>pl pl' s3 s4.
               os_error e (Mkdtemp ''client_disk_'') = None \<and>
               build_payload e ?h ?s1 = (Inr pl, s2) \<and>
               files s3 = files s \<and> logged s3 = logged s2 \<and>
               dirs s3 = insert ?d (dirs s) \<and>
               trace s3 = trace s2 @ [Mkdtemp ''client_disk_''] \<and>
               run_try e cfg ?h ?d pl s3 = (r, s4, pl') \<and>
               plo = Some pl' \<and>
               trace s' = trace s4 @ [Rmtree ?d] \<and>
               files s' = (\<lambda>p. if inside ?d p then None else files s4 p) \<and>
               dirs s' = {x. x \<in> dirs s4 \<and> x \<noteq> ?d \<and> \<not> inside ?d x} \<and>
               logged s' = logged s4 @ (if r = Inr () then [(Info, ''Run finished.'', [])] else [])"
        apply (rule exI [of _ pl], rule exI [of _ pl'], rule exI [of _ s3], rule exI [of _ s4])
        using d bp Inr s2 s3 rt fin(1,2) fs apply simp
        done
      then show ?thesis
        apply -
        apply (rule exI [of _ evs_b], rule exI [of _ s2])
        using s2 apply simp
        done
    qed
  qed
qed

lemma spawns_distinct [simp]:
  "spawns ''ssh'' c \<Longrightarrow> \<not> spawns ''scp'' c"
  "spawns ''ssh'' c \<Longrightarrow> \<not> spawns ''lsblk'' c"
  "spawns ''ssh'' c \<Longrightarrow> \<not> spawns ''smartctl'' c"
  "spawns ''scp'' c \<Longrightarrow> \<not> spawns ''lsblk'' c"
  "spawns ''scp'' c \<Longrightarrow> \<not> spawns ''smartctl'' c"
  by (cases c; simp)+

text \<open>A process spawned inside the \<^verbatim>\<open>try\<close> block is spawned by the delivery step, after the
  report has been written.\<close>

lemma run_try_spawn:
  assumes rt: "run_try e cfg h d pl s = (r, s', pl')"
    and ev: "Spawn argv \<in> set (events_since s s')"
  shows "\<exists>s1 s2 r2 evs_r.
          write_json_atomic e (path_join d (h @ ''_'' @ replace_colons (collected_at pl) @ ''.json''))
            pl s = (Inr (), s1) \<and>
          deliver e cfg h (path_join d (h @ ''_'' @ replace_colons (collected_at pl) @ ''.json'')) pl
            (logger_log Info ''Wrote payload to %s''
               [PStr (path_join d (h @ ''_'' @ replace_colons (collected_at pl) @ ''.json''))] s1)
            = (r2, s2, pl') \<and>
          Spawn argv \<in> set (events_since s1 s2) \<and>
          events_since s s' =
            [OpenWrite (path_join d (h @ ''_'' @ replace_colons (collected_at pl) @ ''.json'') @ ''.tmp''),
             WriteData (path_join d (h @ ''_'' @ replace_colons (collected_at pl) @ ''.json'') @ ''.tmp''),
             Replace (path_join d (h @ ''_'' @ replace_colons (collected_at pl) @ ''.json'') @ ''.tmp'')
               (path_join d (h @ ''_'' @ replace_colons (collected_at pl) @ ''.json''))]
            @ events_since s1 s2 @ evs_r \<and>
          (\<forall>c\<in>set evs_r. retention_call c \<and>
             \<not> writes_to (path_join d (h @ ''_'' @ replace_colons (collected_at pl) @ ''.json'')) c) \<and>
          logged s' = logged s2 \<and>
          ((\<exists>ex. r2 = Inl ex \<and> r = Inl ex \<and> s' = s2 \<and> evs_r = [])
           \<or> (r2 = Inr () \<and> evs_r \<noteq> [] \<and>
               retain e cfg (path_join d (h @ ''_'' @ replace_colons (collected_at pl) @ ''.json''))
                 s2 = (r, s')))"
proof -
  let ?lp = "path_join d (h @ ''_'' @ replace_colons (collected_at pl) @ ''.json'')"
  let ?s1' = "\<lambda>s1. logger_log Info ''Wrote payload to %s'' [PStr ?lp] s1"
  from run_try_structure [OF rt] show ?thesis
  proof (elim disjE exE conjE)
    fix ex
    assume "write_json_atomic e ?lp pl s = (Inl ex, s')"
    from write_json_atomic_result [OF this] obtain evs where
      "trace s' = trace s @ evs"
      "set evs \<subseteq> {OpenWrite (?lp @ ''.tmp''), WriteData (?lp @ ''.tmp''), Replace (?lp @ ''.tmp'') ?lp}"
      by auto
    with ev have False by auto
    then show ?thesis ..
  next
    fix s1 s2 r2 ex
    assume w: "write_json_atomic e ?lp pl s = (Inr (), s1)"
      and dl: "deliver e cfg h ?lp pl (?s1' s1) = (r2, s2, pl')"
      and r: "r2 = Inl ex" "r = Inl ex" "s' = s2"
    from write_json_atomic_result [OF w]
    have t1: "trace s1 = trace s @ [OpenWrite (?lp @ ''.tmp''), WriteData (?lp @ ''.tmp''),
                 Replace (?lp @ ''.tmp'') ?lp]"
      by simp
    from deliver_frame [OF dl] obtain evs_d where
      t2: "trace s2 = trace s1 @ evs_d"
      by (auto simp: logger_log_def)
    from t1 t2 r ev have "Spawn argv \<in> set evs_d"
      by auto
    with w dl r t1 t2 show ?thesis
      apply -
      apply (rule exI [of _ s1], rule exI [of _ s2], rule exI [of _ r2], rule exI [of _ "[]"])
      apply simp
      done
  next
    fix s1 s2 r2
    assume w: "write_json_atomic e ?lp pl s = (Inr (), s1)"
      and dl: "deliver e cfg h ?lp pl (?s1' s1) = (r2, s2, pl')"
      and r: "r2 = Inr ()" and rn: "retain e cfg ?lp s2 = (r, s')"
    from write_json_atomic_result [OF w]
    have t1: "trace s1 = trace s @ [OpenWrite (?lp @ ''.tmp''), WriteData (?lp @ ''.tmp''),
                 Replace (?lp @ ''.tmp'') ?lp]"
      by simp
    from deliver_frame [OF dl] obtain evs_d where
      t2: "trace s2 = trace s1 @ evs_d"
      by (auto simp: logger_log_def)
    from retain_result [OF rn] obtain evs_r where
      t3: "trace s' = trace s2 @ evs_r" "evs_r \<noteq> []"
        "\<forall>c\<in>set evs_r. retention_call c \<and> \<not> writes_to ?lp c"
        "logged s' = logged s2"
      by auto
    from t1 t2 t3 ev have "Spawn argv \<in> set evs_d"
      by auto
    with w dl r rn t1 t2 t3 show ?thesis
      apply -
      apply (rule exI [of _ s1], rule exI [of _ s2], rule exI [of _ r2], rule exI [of _ evs_r])
      apply simp
      done
  qed
qed

lemma run_try_trace:
  assumes rt: "run_try e cfg h d pl s = (r, s', pl')"
  shows "\<exists>evs. trace s' = trace s @ evs"
proof -
  let ?lp = "path_join d (h @ ''_'' @ replace_colons (collected_at pl) @ ''.json'')"
  from run_try_structure [OF rt] show ?thesis
  proof (elim disjE exE conjE)
    fix ex
    assume "write_json_atomic e ?lp pl s = (Inl ex, s')"
    from write_json_atomic_result [OF this] show ?thesis by auto
  next
    fix s1 s2 r2 ex
    assume w: "write_json_atomic e ?lp pl s = (Inr (), s1)"
      and dl: "deliver e cfg h ?lp pl
                 (logger_log Info ''Wrote payload to %s'' [PStr ?lp] s1) = (r2, s2, pl')"
      and r: "s' = s2"
    from write_json_atomic_result [OF w] deliver_frame [OF dl] r show ?thesis
      by (auto simp: logger_log_def)
  next
    fix s1 s2 r2
    assume w: "write_json_atomic e ?lp pl s = (Inr (), s1)"
      and dl: "deliver e cfg h ?lp pl
                 (logger_log Info ''Wrote payload to %s'' [PStr ?lp] s1) = (r2, s2, pl')"
      and rn: "retain e cfg ?lp s2 = (r, s')"
    from write_json_atomic_result [OF w] deliver_frame [OF dl] retain_result [OF rn]
    show ?thesis
      by (auto simp: logger_log_def)
  qed
qed

lemma run_delivery:
  assumes run: "run e cfg s = (r, s', plo)"
    and ev: "Spawn argv \<in> set (events_since s s')"
    and tool: "spawns ''ssh'' (Spawn argv) \<or> spawns ''scp'' (Spawn argv)"
  shows "\<exists>pl pl' s1 s2 r2 evs_b evs_r.
          (\<forall>c\<in>set evs_b. spawns ''lsblk'' c \<or> spawns ''smartctl'' c) \<and>
          files s1 (staged_path e pl) = Some (json_dumps e pl) \<and>
          deliver e cfg (gethostname e) (staged_path e pl) pl s1 = (r2, s2, pl') \<and>
          plo = Some pl' \<and>
          Spawn argv \<in> set (events_since s1 s2) \<and>
          events_since s s' =
            evs_b @
            [Mkdtemp ''client_disk_'',
             OpenWrite (staged_path e pl @ ''.tmp''), WriteData (staged_path e pl @ ''.tmp''),
             Replace (staged_path e pl @ ''.tmp'') (staged_path e pl)]
            @ events_since s1 s2 @ evs_r @ [Rmtree (mkdtemp_name e ''client_disk_'')] \<and>
          (\<forall>c\<in>set evs_r. retention_call c \<and> \<not> writes_to (staged_path e pl) c) \<and>
          (\<exists>lg. logged s' = logged s2 @ lg) \<and>
          mkdtemp_name e ''client_disk_'' \<notin> dirs s' \<and>
          (\<forall>p. inside (mkdtemp_name e ''client_disk_'') p \<longrightarrow> files s' p = None) \<and>
          ((\<exists>ex. r2 = Inl ex \<and> r = Inl ex \<and> evs_r = [])
           \<or> (r2 = Inr () \<and> evs_r \<noteq> [] \<and>
               (\<exists>s3. retain e cfg (staged_path e pl) s2 = (r, s3))))"
proof -
  let ?h = "gethostname e"
  let ?d = "mkdtemp_name e ''client_disk_''"
  have no: "\<And>evs. \<forall>c\<in>set evs. spawns ''lsblk'' c \<or> spawns ''smartctl'' c \<Longrightarrow>
              Spawn argv \<notin> set evs"
    using tool by (auto dest: spawns_distinct)
  from run_structure [OF run] obtain evs_b s2 where
    b: "\<forall>c\<in>set evs_b. spawns ''lsblk'' c \<or> spawns ''smartctl'' c"
      "trace s2 = trace s @ evs_b"
    and cases: "(\<exists>ex. r = Inl ex \<and> plo = None \<and> s' = s2)
         \<or> (\<exists>ex pl. r = Inl ex \<and> plo = Some pl \<and> os_error e (Mkdtemp ''client_disk_'') = Some ex \<and>
               trace s' = trace s2 @ [Mkdtemp ''client_disk_''])
         \<or> (\<exists>pl pl' s3 s4.
               trace s3 = trace s2 @ [Mkdtemp ''client_disk_''] \<and>
               run_try e cfg ?h ?d pl s3 = (r, s4, pl') \<and>
               plo = Some pl' \<and>
               trace s' = trace s4 @ [Rmtree ?d] \<and>
               files s' = (\<lambda>p. if inside ?d p then None else files s4 p) \<and>
               dirs s' = {x. x \<in> dirs s4 \<and> x \<noteq> ?d \<and> \<not> inside ?d x} \<and>
               logged s' = logged s4 @ (if r = Inr () then [(Info, ''Run finished.'', [])] else []))"
    by blast
  from cases show ?thesis
  proof (elim disjE exE conjE)
    fix ex
    assume "s' = s2"
    with b ev no [OF b(1)] have False by simp
    then show ?thesis ..
  next
    fix ex pl
    assume "trace s' = trace s2 @ [Mkdtemp ''client_disk_'']"
    with b ev no [OF b(1)] have False by simp
    then show ?thesis ..
  next
    fix pl pl' s3 s4
    assume s3: "trace s3 = trace s2 @ [Mkdtemp ''client_disk_'']"
      and rt: "run_try e cfg ?h ?d pl s3 = (r, s4, pl')"
      and plo: "plo = Some pl'"
      and tr: "trace s' = trace s4 @ [Rmtree ?d]"
      and fd: "files s' = (\<lambda>p. if inside ?d p then None else files s4 p)"
         "dirs s' = {x. x \<in> dirs s4 \<and> x \<noteq> ?d \<and> \<not> inside ?d x}"
      and lg: "logged s' = logged s4 @ (if r = Inr () then [(Info, ''Run finished.'', [])] else [])"
    from run_try_trace [OF rt] obtain evs_t where t4: "trace s4 = trace s3 @ evs_t"
      by blast
    from b s3 t4 tr have all: "events_since s s' = evs_b @ [Mkdtemp ''client_disk_''] @ evs_t @ [Rmtree ?d]"
      by simp
    with ev no [OF b(1)] have "Spawn argv \<in> set evs_t"
      by auto
    with t4 have "Spawn argv \<in> set (events_since s3 s4)"
      by simp
    from run_try_spawn [OF rt this] obtain s1 sd r2 evs_r where
      w: "write_json_atomic e (staged_path e pl) pl s3 = (Inr (), s1)"
      and dl: "deliver e cfg ?h (staged_path e pl) pl
                 (logger_log Info ''Wrote payload to %s'' [PStr (staged_path e pl)] s1) = (r2, sd, pl')"
      and sp: "Spawn argv \<in> set (events_since s1 sd)"
      and evt: "events_since s3 s4 =
            [OpenWrite (staged_path e pl @ ''.tmp''), WriteData (staged_path e pl @ ''.tmp''),
             Replace (staged_path e pl @ ''.tmp'') (staged_path e pl)]
            @ events_since s1 sd @ evs_r"
      and rc: "\<forall>c\<in>set evs_r. retention_call c \<and> \<not> writes_to (staged_path e pl) c"
      and l4: "logged s4 = logged sd"
      and fin: "(\<exists>ex. r2 = Inl ex \<and> r = Inl ex \<and> s4 = sd \<and> evs_r = [])
           \<or> (r2 = Inr () \<and> evs_r \<noteq> [] \<and> retain e cfg (staged_path e pl) sd = (r, s4))"
      unfolding staged_path_def by blast
    let ?s1 = "logger_log Info ''Wrote payload to %s'' [PStr (staged_path e pl)] s1"
    have f1: "files ?s1 (staged_path e pl) = Some (json_dumps e pl)"
      using write_json_atomic_result [OF w] by (simp add: logger_log_def)
    have e1: "events_since ?s1 sd = events_since s1 sd"
      by (simp add: events_since_def logger_log_def)
    have evs: "events_since s s' =
            evs_b @
            [Mkdtemp ''client_disk_'',
             OpenWrite (staged_path e pl @ ''.tmp''), WriteData (staged_path e pl @ ''.tmp''),
             Replace (staged_path e pl @ ''.tmp'') (staged_path e pl)]
            @ events_since ?s1 sd @ evs_r @ [Rmtree ?d]"
      using all t4 evt e1 by simp
    have lg': "\<exists>lg. logged s' = logged sd @ lg"
      using lg l4 by simp
    have fin': "(\<exists>ex. r2 = Inl ex \<and> r = Inl ex \<and> evs_r = [])
           \<or> (r2 = Inr () \<and> evs_r \<noteq> [] \<and> (\<exists>s3. retain e cfg (staged_path e pl) sd = (r, s3)))"
      using fin by blast
    show ?thesis
      apply (rule exI [of _ pl], rule exI [of _ pl'], rule exI [of _ ?s1], rule exI [of _ sd],
          rule exI [of _ r2], rule exI [of _ evs_b], rule exI [of _ evs_r])
      using b(1) f1 dl plo sp e1 evs rc lg' fin' fd apply (intro conjI)
              apply simp_all
      done
  qed
qed


lemma retention_call_not_spawn [simp]: "retention_call c \<Longrightarrow> \<not> spawns tool c"
  by (cases c) simp_all

section \<open>Runs on the sample hosts\<close>

lemmas run_eval =
  run_def build_payload_def collect_disk_usage_def list_block_disks_def subprocess_run_def
  smart_check_def mkdtemp_def run_try_def write_json_atomic_def os_replace_def deliver_def
  retain_def os_remove_def os_makedirs_def shutil_copy_def rmtree_def called_def logger_log_def
  cfg_item_def cfg_get_def timestamp_def add_note_def mkdir_cmd_def scp_cmd_def str_int_def
  str_nat.simps path_join_def basename_def replace_colons_def rstrip_slash_def strip_def
  is_space_def split_ws_def splitlines_def is_linebreak_def passed_marker_def partition_entry_def
  inside_def events_since_def Let_def
  sample_env_def sample_cfg_def fresh_state_def sample_dumps_def tool_outcome_def exits_def
  not_installed_def call_fails_def suffix_to_prefix

lemma ssh_refused_run:
  "trace (fst (snd (run (tool_outcome ''ssh'' (exits 255) sample_env) sample_cfg fresh_state))) =
    [Spawn [''lsblk'', ''-ndo'', ''NAME,TYPE''],
     Spawn [''smartctl'', ''-H'', ''/dev/sda''], Mkdtemp ''client_disk_'',
     OpenWrite ''/tmp/client_disk_x1/node1_2024-05-01T10-20-30Z.json.tmp'',
     WriteData ''/tmp/client_disk_x1/node1_2024-05-01T10-20-30Z.json.tmp'',
     Replace ''/tmp/client_disk_x1/node1_2024-05-01T10-20-30Z.json.tmp''
       ''/tmp/client_disk_x1/node1_2024-05-01T10-20-30Z.json'',
     Spawn [''ssh'', ''-o'', ''StrictHostKeyChecking=no'', ''-p'', ''22'', ''mon@10.0.0.5'',
            ''mkdir -p /srv/recv/node1 && chmod 750 /srv/recv/node1''],
     Remove ''/tmp/client_disk_x1/node1_2024-05-01T10-20-30Z.json'',
     Rmtree ''/tmp/client_disk_x1'']"
  by (simp add: run_eval)

section \<open>Delivery\<close>

text \<open>
  Claim C6. In every run that spawns the remote directory command (\<^verbatim>\<open>ssh ... mkdir -p\<close>) and
  sees it exit with a non-zero code, the log receives the warning entry, the in-memory
  payload receives the note \<^verbatim>\<open>remote_mkdir_failed\<close>, and no \<^verbatim>\<open>scp\<close> process is spawned
  at any point of the run.
\<close>

theorem remote_mkdir_failure_skips_transfer:
  assumes run: "run e cfg s = (r, s', plo)"
    and ev: "Spawn argv \<in> set (events_since s s')"
    and ssh: "spawns ''ssh'' (Spawn argv)"
    and res: "proc e argv = Inr res"
    and rc: "returncode res \<noteq> 0"
  shows "(Warning, ''Remote mkdir failed: rc=%s stderr=%s'',
            [PInt (returncode res), PStr (strip (stderr res))]) \<in> set (logged s')
         \<and> (\<exists>pl. plo = Some pl \<and> ''remote_mkdir_failed'' \<in> set (p_notes pl))
         \<and> (\<forall>c\<in>set (events_since s s'). \<not> spawns ''scp'' c)"
proof -
  from run_delivery [OF run ev] ssh obtain pl pl' s1 s2 r2 evs_b evs_r lg where
    b: "\<forall>c\<in>set evs_b. spawns ''lsblk'' c \<or> spawns ''smartctl'' c"
    and dl: "deliver e cfg (gethostname e) (staged_path e pl) pl s1 = (r2, s2, pl')"
    and plo: "plo = Some pl'"
    and sp: "Spawn argv \<in> set (events_since s1 s2)"
    and evs: "events_since s s' =
            evs_b @
            [Mkdtemp ''client_disk_'',
             OpenWrite (staged_path e pl @ ''.tmp''), WriteData (staged_path e pl @ ''.tmp''),
             Replace (staged_path e pl @ ''.tmp'') (staged_path e pl)]
            @ events_since s1 s2 @ evs_r @ [Rmtree (mkdtemp_name e ''client_disk_'')]"
    and ret: "\<forall>c\<in>set evs_r. retention_call c \<and> \<not> writes_to (staged_path e pl) c"
    and lg: "logged s' = logged s2 @ lg"
    by blast
  from deliver_mkdir_failed [OF dl sp ssh res rc]
  have d: "pl' = add_note ''remote_mkdir_failed'' pl"
    "(Warning, ''Remote mkdir failed: rc=%s stderr=%s'',
        [PInt (returncode res), PStr (strip (stderr res))]) \<in> set (logged s2)"
    "events_since s1 s2 = [Spawn argv]"
    by simp_all
  have "\<forall>c\<in>set evs_b. \<not> spawns ''scp'' c"
    using b by (auto dest: spawns_distinct)
  moreover have "\<forall>c\<in>set evs_r. \<not> spawns ''scp'' c"
    using ret by simp
  moreover have "\<not> spawns ''scp'' (Spawn argv)"
    using ssh by (rule spawns_distinct)
  ultimately have "\<forall>c\<in>set (events_since s s'). \<not> spawns ''scp'' c"
    unfolding evs d by auto
  with d plo lg show ?thesis
    by (simp add: add_note_def)
qed

theorem remote_mkdir_failure_skips_transfer_witness:
  "(Warning, ''Remote mkdir failed: rc=%s stderr=%s'', [PInt 255, PStr ''failed''])
     \<in> set (logged (fst (snd (run (tool_outcome ''ssh'' (exits 255) sample_env) sample_cfg
                                 fresh_state))))
   \<and> (\<exists>pl. snd (snd (run (tool_outcome ''ssh'' (exits 255) sample_env) sample_cfg fresh_state))
             = Some pl \<and> ''remote_mkdir_failed'' \<in> set (p_notes pl))
   \<and> list_all (\<lambda>c. \<not> spawns ''scp'' c)
        (trace (fst (snd (run (tool_outcome ''ssh'' (exits 255) sample_env) sample_cfg
                            fresh_state))))"
proof -
  let ?e = "tool_outcome ''ssh'' (exits 255) sample_env"
  let ?argv = "[''ssh'', ''-o'', ''StrictHostKeyChecking=no'', ''-p'', ''22'', ''mon@10.0.0.5'',
                ''mkdir -p /srv/recv/node1 && chmod 750 /srv/recv/node1'']"
  let ?X = "run ?e sample_cfg fresh_state"
  have 1: "run ?e sample_cfg fresh_state = (fst ?X, fst (snd ?X), snd (snd ?X))"
    by simp
  have 2: "Spawn ?argv \<in> set (events_since fresh_state (fst (snd ?X)))"
    by (simp add: events_since_def ssh_refused_run) (simp add: fresh_state_def)
  have 3: "spawns ''ssh'' (Spawn ?argv)"
    by simp
  have 4: "proc ?e ?argv = Inr \<lparr>returncode = 255, stdout = [], stderr = '' failed ''\<rparr>"
    by (simp add: tool_outcome_def exits_def)
  have 5: "returncode \<lparr>returncode = 255, stdout = [], stderr = '' failed ''\<rparr> \<noteq> 0"
    by simp
  have s: "strip '' failed '' = ''failed''"
    by (simp add: strip_def is_space_def)
  have t: "events_since fresh_state (fst (snd ?X)) = trace (fst (snd ?X))"
    by (simp add: events_since_def fresh_state_def)
  from remote_mkdir_failure_skips_transfer [OF 1 2 3 4 5]
  show ?thesis
    by (simp add: s t list_all_iff)
qed








section \<open>Persistence and cleanup\<close>

lemma spawns_not_writes [simp]: "spawns tool c \<Longrightarrow> \<not> writes_to p c"
  by (cases c) simp_all

lemma spawns_not_replace [simp]: "spawns tool c \<Longrightarrow> c \<noteq> Replace a b"
  by (cases c) simp_all

lemma retention_not_replace [simp]: "retention_call c \<Longrightarrow> c \<noteq> Replace a b"
  by (cases c) simp_all

text \<open>When the rename of the \<^verbatim>\<open>try\<close> block has been called and did not fail, the report
  is at the staged path, and what follows are the spawns of the delivery step and the
  calls of the retention step.\<close>

lemma run_try_persisted:
  assumes rt: "run_try e cfg h d pl s = (r, s', pl')"
    and ev: "Replace tmp lp \<in> set (events_since s s')"
    and ok: "os_error e (Replace tmp lp) = None"
  shows "lp = path_join d (h @ ''_'' @ replace_colons (collected_at pl) @ ''.json'') \<and>
         tmp = lp @ ''.tmp'' \<and>
         (\<exists>evs_a. events_since s s' = [OpenWrite tmp, WriteData tmp] @ Replace tmp lp # evs_a \<and>
            (\<forall>c\<in>set evs_a. \<not> writes_to lp c \<and> c \<noteq> Replace tmp lp)) \<and>
         (pl' = pl \<or> pl' = add_note ''remote_mkdir_failed'' pl \<or> pl' = add_note ''scp_failed'' pl) \<and>
         (\<forall>q. files s' q = files s q \<or> files s' q = None \<or> files s' q = Some (json_dumps e pl))"
proof -
  let ?lp = "path_join d (h @ ''_'' @ replace_colons (collected_at pl) @ ''.json'')"
  let ?s1' = "\<lambda>s1. logger_log Info ''Wrote payload to %s'' [PStr ?lp] s1"
  from run_try_structure [OF rt] show ?thesis
  proof (elim disjE exE conjE)
    fix ex
    assume "write_json_atomic e ?lp pl s = (Inl ex, s')"
    from write_json_atomic_result [OF this] obtain evs where
      "trace s' = trace s @ evs"
      "set evs \<subseteq> {OpenWrite (?lp @ ''.tmp''), WriteData (?lp @ ''.tmp''), Replace (?lp @ ''.tmp'') ?lp}"
      "Replace (?lp @ ''.tmp'') ?lp \<in> set evs \<longrightarrow> os_error e (Replace (?lp @ ''.tmp'') ?lp) = Some ex"
      by auto
    with ev ok have False by auto
    then show ?thesis ..
  next
    fix s1 s2 r2 ex
    assume w: "write_json_atomic e ?lp pl s = (Inr (), s1)"
      and dl: "deliver e cfg h ?lp pl (?s1' s1) = (r2, s2, pl')"
      and r: "s' = s2"
    note wr = write_json_atomic_result [OF w]
    from wr have t1: "trace s1 = trace s @ [OpenWrite (?lp @ ''.tmp''), WriteData (?lp @ ''.tmp''),
                 Replace (?lp @ ''.tmp'') ?lp]"
      by simp
    from deliver_frame [OF dl] obtain evs_d where
      t2: "trace s2 = trace s1 @ evs_d" "\<forall>c\<in>set evs_d. spawns ''ssh'' c \<or> spawns ''scp'' c"
      and f2: "files s2 = files s1"
      and p2: "pl' = pl \<or> pl' = add_note ''remote_mkdir_failed'' pl \<or> pl' = add_note ''scp_failed'' pl"
      by (auto simp: logger_log_def)
    have evs: "events_since s s' = [OpenWrite (?lp @ ''.tmp''), WriteData (?lp @ ''.tmp'')]
                 @ Replace (?lp @ ''.tmp'') ?lp # evs_d"
      using t1 t2 r by simp
    from ev evs t2 have eq: "tmp = ?lp @ ''.tmp''" "lp = ?lp"
      by auto
    have a: "\<forall>c\<in>set evs_d. \<not> writes_to lp c \<and> c \<noteq> Replace tmp lp"
      using t2 by auto
    have f: "\<forall>q. files s' q = files s q \<or> files s' q = None \<or> files s' q = Some (json_dumps e pl)"
    proof
      fix q
      show "files s' q = files s q \<or> files s' q = None \<or> files s' q = Some (json_dumps e pl)"
        using wr f2 r by (cases "q = ?lp"; cases "q = ?lp @ ''.tmp''") simp_all
    qed
    show ?thesis
      unfolding eq using evs a p2 f by (simp add: eq)
  next
    fix s1 s2 r2
    assume w: "write_json_atomic e ?lp pl s = (Inr (), s1)"
      and dl: "deliver e cfg h ?lp pl (?s1' s1) = (r2, s2, pl')"
      and rn: "retain e cfg ?lp s2 = (r, s')"
    note wr = write_json_atomic_result [OF w]
    from wr have t1: "trace s1 = trace s @ [OpenWrite (?lp @ ''.tmp''), WriteData (?lp @ ''.tmp''),
                 Replace (?lp @ ''.tmp'') ?lp]"
      by simp
    from deliver_frame [OF dl] obtain evs_d where
      t2: "trace s2 = trace s1 @ evs_d" "\<forall>c\<in>set evs_d. spawns ''ssh'' c \<or> spawns ''scp'' c"
      and f2: "files s2 = files s1"
      and p2: "pl' = pl \<or> pl' = add_note ''remote_mkdir_failed'' pl \<or> pl' = add_note ''scp_failed'' pl"
      by (auto simp: logger_log_def)
    from retain_result [OF rn] obtain evs_r where
      t3: "trace s' = trace s2 @ evs_r"
        "\<forall>c\<in>set evs_r. retention_call c \<and> \<not> writes_to ?lp c"
      and f3: "\<forall>q. files s' q = files s2 q \<or> (q = ?lp \<and> files s' q = None)
                  \<or> (q \<noteq> ?lp \<and> files s' q = files s2 ?lp)"
      by auto
    have evs: "events_since s s' = [OpenWrite (?lp @ ''.tmp''), WriteData (?lp @ ''.tmp'')]
                 @ Replace (?lp @ ''.tmp'') ?lp # (evs_d @ evs_r)"
      using t1 t2 t3 by simp
    from ev evs t2 t3 have eq: "tmp = ?lp @ ''.tmp''" "lp = ?lp"
      by auto
    have a: "\<forall>c\<in>set (evs_d @ evs_r). \<not> writes_to lp c \<and> c \<noteq> Replace tmp lp"
      using t2 t3 eq by auto
    have f: "\<forall>q. files s' q = files s q \<or> files s' q = None \<or> files s' q = Some (json_dumps e pl)"
    proof
      fix q
      from spec [OF f3, of q]
      show "files s' q = files s q \<or> files s' q = None \<or> files s' q = Some (json_dumps e pl)"
        using wr f2 by (cases "q = ?lp"; cases "q = ?lp @ ''.tmp''") auto
    qed
    show ?thesis
      unfolding eq using evs a p2 f by (simp add: eq)
  qed
qed




lemma build_payload_no_delivery_notes:
  "build_payload e h s = (Inr pl, s') \<Longrightarrow>
     set (p_notes pl) \<subseteq> {''no-block-disks-found-or-lsblk-failed''}"
  using build_payload_notes [of e h s pl s']
  by (cases "fst (list_block_disks e s) = Inr []") auto

text \<open>
  Claim C7. Once the rename has put the report at the staged path, no later call of the
  run writes to that path (the file is only read, copied and finally deleted). The report
  was serialized from the payload as it was before delivery: its notes hold at most the
  no-disk note, while the in-memory payload at the end may hold a delivery note in
  addition. Every file the run creates or changes and leaves behind (the archive copy)
  holds exactly that serialized text, so a delivery note never reaches a written file.
\<close>

theorem persisted_report_never_rewritten:
  assumes run: "run e cfg s = (r, s', plo)"
    and ev: "events_since s s' = pre @ Replace tmp lp # post"
    and ok: "os_error e (Replace tmp lp) = None"
  shows "\<exists>pl0 pl.
           lp = staged_path e pl0 \<and> tmp = lp @ ''.tmp'' \<and>
           WriteData tmp \<in> set pre \<and>
           (\<forall>c\<in>set post. \<not> writes_to lp c) \<and>
           plo = Some pl \<and>
           (pl = pl0 \<or> pl = add_note ''remote_mkdir_failed'' pl0 \<or> pl = add_note ''scp_failed'' pl0) \<and>
           set (p_notes pl0) \<subseteq> {''no-block-disks-found-or-lsblk-failed''} \<and>
           (\<forall>q. files s' q = files s q \<or> files s' q = None \<or> files s' q = Some (json_dumps e pl0))"
proof -
  let ?h = "gethostname e"
  let ?d = "mkdtemp_name e ''client_disk_''"
  let ?s1 = "logger_log Info ''Starting disk monitor run on host %s'' [PStr ?h] s"
  from ev have mem: "Replace tmp lp \<in> set (events_since s s')"
    by simp
  from run_structure [OF run] obtain evs_b s2 where
    b: "\<forall>c\<in>set evs_b. spawns ''lsblk'' c \<or> spawns ''smartctl'' c"
      "trace s2 = trace s @ evs_b"
    and cases: "(\<exists>ex. r = Inl ex \<and> plo = None \<and> s' = s2)
         \<or> (\<exists>ex pl. r = Inl ex \<and> plo = Some pl \<and> os_error e (Mkdtemp ''client_disk_'') = Some ex \<and>
               trace s' = trace s2 @ [Mkdtemp ''client_disk_''])
         \<or> (\<exists>pl pl' s3 s4.
               build_payload e ?h ?s1 = (Inr pl, s2) \<and>
               files s3 = files s \<and>
               trace s3 = trace s2 @ [Mkdtemp ''client_disk_''] \<and>
               run_try e cfg ?h ?d pl s3 = (r, s4, pl') \<and>
               plo = Some pl' \<and>
               trace s' = trace s4 @ [Rmtree ?d] \<and>
               files s' = (\<lambda>p. if inside ?d p then None else files s4 p))"
    by blast
  have nb: "Replace tmp lp \<notin> set evs_b"
    using b(1) by (auto dest: spawns_not_replace)
  from cases show ?thesis
  proof (elim disjE exE conjE)
    fix ex
    assume "s' = s2"
    with b mem nb have False by simp
    then show ?thesis ..
  next
    fix ex pl
    assume "trace s' = trace s2 @ [Mkdtemp ''client_disk_'']"
    with b mem nb have False by simp
    then show ?thesis ..
  next
    fix pl0 pl' s3 s4
    assume bp: "build_payload e ?h ?s1 = (Inr pl0, s2)"
      and f3: "files s3 = files s"
      and s3: "trace s3 = trace s2 @ [Mkdtemp ''client_disk_'']"
      and rt: "run_try e cfg ?h ?d pl0 s3 = (r, s4, pl')"
      and plo: "plo = Some pl'"
      and tr: "trace s' = trace s4 @ [Rmtree ?d]"
      and fs: "files s' = (\<lambda>p. if inside ?d p then None else files s4 p)"
    from run_try_trace [OF rt] obtain evs_t where t4: "trace s4 = trace s3 @ evs_t"
      by blast
    with b s3 tr have all: "events_since s s' = evs_b @ [Mkdtemp ''client_disk_''] @ evs_t @ [Rmtree ?d]"
      by simp
    with mem nb have "Replace tmp lp \<in> set evs_t"
      by auto
    with t4 have "Replace tmp lp \<in> set (events_since s3 s4)"
      by simp
    from run_try_persisted [OF rt this ok] obtain evs_a where
      eq: "lp = staged_path e pl0" "tmp = lp @ ''.tmp''"
      and evt: "events_since s3 s4 = [OpenWrite tmp, WriteData tmp] @ Replace tmp lp # evs_a"
      and a: "\<forall>c\<in>set evs_a. \<not> writes_to lp c \<and> c \<noteq> Replace tmp lp"
      and p: "pl' = pl0 \<or> pl' = add_note ''remote_mkdir_failed'' pl0 \<or> pl' = add_note ''scp_failed'' pl0"
      and f4: "\<forall>q. files s4 q = files s3 q \<or> files s4 q = None \<or> files s4 q = Some (json_dumps e pl0)"
      unfolding staged_path_def by blast
    from all t4 evt have dec: "events_since s s' =
        (evs_b @ [Mkdtemp ''client_disk_'', OpenWrite tmp, WriteData tmp])
          @ Replace tmp lp # (evs_a @ [Rmtree ?d])"
      by simp
    have n1: "Replace tmp lp \<notin> set (evs_b @ [Mkdtemp ''client_disk_'', OpenWrite tmp, WriteData tmp])"
      using nb by simp
    have n2: "Replace tmp lp \<notin> set (evs_a @ [Rmtree ?d])"
      using a by auto
    from dec [symmetric] ev
    have "(evs_b @ [Mkdtemp ''client_disk_'', OpenWrite tmp, WriteData tmp])
            @ Replace tmp lp # (evs_a @ [Rmtree ?d]) = pre @ Replace tmp lp # post"
      by (rule trans)
    from append_Cons_eq_iff [THEN iffD1, OF n1 n2 this]
    have pp: "pre = evs_b @ [Mkdtemp ''client_disk_'', OpenWrite tmp, WriteData tmp]"
      "post = evs_a @ [Rmtree ?d]"
      by simp_all
    have c1: "WriteData tmp \<in> set pre"
      unfolding pp by simp
    have c2: "\<forall>c\<in>set post. \<not> writes_to lp c"
      unfolding pp using a by auto
    have c3: "\<forall>q. files s' q = files s q \<or> files s' q = None \<or> files s' q = Some (json_dumps e pl0)"
    proof
      fix q
      from spec [OF f4, of q] f3 fs
      show "files s' q = files s q \<or> files s' q = None \<or> files s' q = Some (json_dumps e pl0)"
        by auto
    qed
    note c4 = build_payload_no_delivery_notes [OF bp]
    show ?thesis
      apply (rule exI [of _ pl0], rule exI [of _ pl'])
      using eq c1 c2 plo p c4 c3 apply simp
      done
  qed
qed

lemma scp_fails_keep_run:
  "trace (fst (snd (run (tool_outcome ''scp'' (exits 1) sample_env)
                      (sample_cfg\<lparr>keep_local_copy := Some True\<rparr>) fresh_state))) =
    [Spawn [''lsblk'', ''-ndo'', ''NAME,TYPE''],
     Spawn [''smartctl'', ''-H'', ''/dev/sda''], Mkdtemp ''client_disk_'',
     OpenWrite ''/tmp/client_disk_x1/node1_2024-05-01T10-20-30Z.json.tmp'',
     WriteData ''/tmp/client_disk_x1/node1_2024-05-01T10-20-30Z.json.tmp'',
     Replace ''/tmp/client_disk_x1/node1_2024-05-01T10-20-30Z.json.tmp''
       ''/tmp/client_disk_x1/node1_2024-05-01T10-20-30Z.json'',
     Spawn [''ssh'', ''-o'', ''StrictHostKeyChecking=no'', ''-p'', ''22'', ''mon@10.0.0.5'',
            ''mkdir -p /srv/recv/node1 && chmod 750 /srv/recv/node1''],
     Spawn [''scp'', ''-o'', ''StrictHostKeyChecking=no'', ''-P'', ''22'',
            ''/tmp/client_disk_x1/node1_2024-05-01T10-20-30Z.json'',
            ''mon@10.0.0.5:/srv/recv/node1/''],
     Makedirs ''/root/client_node/sent_payloads'',
     Copy ''/tmp/client_disk_x1/node1_2024-05-01T10-20-30Z.json''
       ''/root/client_node/sent_payloads/node1_2024-05-01T10-20-30Z.json'',
     Rmtree ''/tmp/client_disk_x1'']"
  "files (fst (snd (run (tool_outcome ''scp'' (exits 1) sample_env)
                      (sample_cfg\<lparr>keep_local_copy := Some True\<rparr>) fresh_state)))
     ''/root/client_node/sent_payloads/node1_2024-05-01T10-20-30Z.json''
     = Some ''node1|2024-05-01T10:20:30Z|''"
  "map_option p_notes (snd (snd (run (tool_outcome ''scp'' (exits 1) sample_env)
                      (sample_cfg\<lparr>keep_local_copy := Some True\<rparr>) fresh_state)))
     = Some [''scp_failed'']"
  by (simp_all add: run_eval)

theorem persisted_report_never_rewritten_witness:
  "list_all (\<lambda>c. \<not> writes_to ''/tmp/client_disk_x1/node1_2024-05-01T10-20-30Z.json'' c)
     [Spawn [''ssh'', ''-o'', ''StrictHostKeyChecking=no'', ''-p'', ''22'', ''mon@10.0.0.5'',
            ''mkdir -p /srv/recv/node1 && chmod 750 /srv/recv/node1''],
      Spawn [''scp'', ''-o'', ''StrictHostKeyChecking=no'', ''-P'', ''22'',
            ''/tmp/client_disk_x1/node1_2024-05-01T10-20-30Z.json'',
            ''mon@10.0.0.5:/srv/recv/node1/''],
      Makedirs ''/root/client_node/sent_payloads'',
      Copy ''/tmp/client_disk_x1/node1_2024-05-01T10-20-30Z.json''
        ''/root/client_node/sent_payloads/node1_2024-05-01T10-20-30Z.json'',
      Rmtree ''/tmp/client_disk_x1'']
   \<and> files (fst (snd (run (tool_outcome ''scp'' (exits 1) sample_env)
                      (sample_cfg\<lparr>keep_local_copy := Some True\<rparr>) fresh_state)))
       ''/root/client_node/sent_payloads/node1_2024-05-01T10-20-30Z.json''
       = Some ''node1|2024-05-01T10:20:30Z|''
   \<and> map_option p_notes (snd (snd (run (tool_outcome ''scp'' (exits 1) sample_env)
                      (sample_cfg\<lparr>keep_local_copy := Some True\<rparr>) fresh_state)))
       = Some [''scp_failed'']"
proof -
  let ?e = "tool_outcome ''scp'' (exits 1) sample_env"
  let ?c = "sample_cfg\<lparr>keep_local_copy := Some True\<rparr>"
  let ?X = "run ?e ?c fresh_state"
  let ?lp = "''/tmp/client_disk_x1/node1_2024-05-01T10-20-30Z.json''"
  let ?pre = "[Spawn [''lsblk'', ''-ndo'', ''NAME,TYPE''],
     Spawn [''smartctl'', ''-H'', ''/dev/sda''], Mkdtemp ''client_disk_'',
     OpenWrite (?lp @ ''.tmp''), WriteData (?lp @ ''.tmp'')]"
  let ?post = "[Spawn [''ssh'', ''-o'', ''StrictHostKeyChecking=no'', ''-p'', ''22'', ''mon@10.0.0.5'',
            ''mkdir -p /srv/recv/node1 && chmod 750 /srv/recv/node1''],
      Spawn [''scp'', ''-o'', ''StrictHostKeyChecking=no'', ''-P'', ''22'', ?lp,
            ''mon@10.0.0.5:/srv/recv/node1/''],
      Makedirs ''/root/client_node/sent_payloads'',
      Copy ?lp ''/root/client_node/sent_payloads/node1_2024-05-01T10-20-30Z.json'',
      Rmtree ''/tmp/client_disk_x1'']"
  have 1: "run ?e ?c fresh_state = (fst ?X, fst (snd ?X), snd (snd ?X))"
    by simp
  have t: "events_since fresh_state (fst (snd ?X)) = trace (fst (snd ?X))"
    by (simp add: events_since_def fresh_state_def)
  have 2: "events_since fresh_state (fst (snd ?X)) = ?pre @ Replace (?lp @ ''.tmp'') ?lp # ?post"
    unfolding t by (simp add: scp_fails_keep_run)
  have 3: "os_error ?e (Replace (?lp @ ''.tmp'') ?lp) = None"
    by (simp add: tool_outcome_def sample_env_def)
  from persisted_report_never_rewritten [OF 1 2 3] scp_fails_keep_run(2,3)
  show ?thesis
    by (simp add: list_all_iff)
qed

section \<open>Enumeration of the block devices\<close>

text \<open>What holds of the enumeration: a non-zero exit code of \<^verbatim>\<open>lsblk\<close> gives the empty
  list, and a run whose enumeration returns the empty list has a payload with no SMART
  result and with the note that says so.\<close>

lemma list_block_disks_nonzero_exit:
  "proc e [''lsblk'', ''-ndo'', ''NAME,TYPE''] = Inr out \<Longrightarrow> returncode out \<noteq> 0 \<Longrightarrow>
     fst (list_block_disks e s) = Inr []"
  by (simp add: list_block_disks_def subprocess_run_def)

lemma list_block_disks_raises:
  "proc e [''lsblk'', ''-ndo'', ''NAME,TYPE''] = Inl ex \<Longrightarrow> fst (list_block_disks e s) = Inl ex"
  by (simp add: list_block_disks_def subprocess_run_def)

lemma run_try_payload:
  assumes rt: "run_try e cfg h d pl s = (r, s', pl')"
  shows "pl' = pl \<or> pl' = add_note ''remote_mkdir_failed'' pl \<or> pl' = add_note ''scp_failed'' pl"
  using run_try_structure [OF rt]
  by (elim disjE exE conjE) (auto dest: deliver_frame)

lemma run_without_disks:
  assumes run: "run e cfg s = (r, s', plo)"
    and parts: "collect_disk_usage e = Inr parts"
    and lsblk: "proc e [''lsblk'', ''-ndo'', ''NAME,TYPE''] = Inr out"
    and none: "returncode out \<noteq> 0 \<or> disks_loop (splitlines (stdout out)) [] = []"
  shows "\<exists>pl. plo = Some pl \<and> disk_partitions pl = parts \<and> smart pl = [] \<and>
           ''no-block-disks-found-or-lsblk-failed'' \<in> set (p_notes pl)"
proof -
  let ?h = "gethostname e"
  let ?s1 = "logger_log Info ''Starting disk monitor run on host %s'' [PStr ?h] s"
  let ?P = "add_note ''no-block-disks-found-or-lsblk-failed''
              \<lparr>collected_at = timestamp e, host = ?h, disk_partitions = parts, smart = [],
               p_notes = []\<rparr>"
  obtain s2 where bp: "build_payload e ?h ?s1 = (Inr ?P, s2)"
    using parts lsblk none
    by (auto simp: build_payload_def list_block_disks_def subprocess_run_def Let_def)
  obtain rm s3 where mk: "mkdtemp e ''client_disk_'' s2 = (rm, s3)"
    by (cases "mkdtemp e ''client_disk_'' s2")
  show ?thesis
  proof (cases rm)
    case (Inl ex)
    with run bp mk have "plo = Some ?P"
      by (simp add: run_def Let_def)
    then show ?thesis
      by (simp add: add_note_def)
  next
    case (Inr tmpdir)
    obtain rt s4 pl' where rt: "run_try e cfg ?h tmpdir ?P s3 = (rt, s4, pl')"
      by (cases "run_try e cfg ?h tmpdir ?P s3") auto
    with run bp mk Inr have "plo = Some pl'"
      by (auto simp: run_def Let_def split: sum.splits)
    with run_try_payload [OF rt] show ?thesis
      by (auto simp: add_note_def)
  qed
qed

text \<open>
  Claim C4 at the host on which \<^verbatim>\<open>lsblk\<close> is not installed: \<^verbatim>\<open>subprocess.run\<close> raises
  \<open>FileNotFoundError\<close>, \<open>list_block_disks\<close> does not return the empty list but lets the
  exception through, and the run ends with it right after that first spawn, with no
  payload and no report.
\<close>

theorem lsblk_missing_aborts_run:
  "fst (list_block_disks (tool_outcome ''lsblk'' (not_installed ''lsblk'') sample_env) fresh_state)
     = Inl (PyExc FileNotFoundError ''[Errno 2] No such file or directory: lsblk'')
   \<and> fst (run (tool_outcome ''lsblk'' (not_installed ''lsblk'') sample_env) sample_cfg fresh_state)
       = Inl (PyExc FileNotFoundError ''[Errno 2] No such file or directory: lsblk'')
   \<and> trace (fst (snd (run (tool_outcome ''lsblk'' (not_installed ''lsblk'') sample_env) sample_cfg
                         fresh_state)))
       = [Spawn [''lsblk'', ''-ndo'', ''NAME,TYPE'']]
   \<and> snd (snd (run (tool_outcome ''lsblk'' (not_installed ''lsblk'') sample_env) sample_cfg
                  fresh_state)) = None"
  by (simp add: run_eval)

end
